theory Spec2Isabelle
  imports Complex_Main "HOL-Library.Word"
begin

unbundle bit_operations_syntax

section \<open>Refresh-rate configuration (RefreshRateConfigs.h)\<close>

datatype RefreshRateType = DEFAULT | PERFORMANCE

text \<open>\<open>enum class RefreshRateConfigEvent { None, Changed }\<close>; \<open>None\<close> is renamed, since
  HOL's option type owns that name.\<close>

datatype RefreshRateConfigEvent = NoneEvent | Changed

record RefreshRate =
  configId :: int
  name :: string
  fps :: "32 word"
  vsyncPeriod :: int
  hwcId :: "32 word"

text \<open>
  \<open>mRefreshRateMap\<close> is a \<open>std::map\<close> keyed by the two-valued enum: a partial function.
  The body of \<open>getCurrentRefreshRate\<close> is not part of the sources; the pair it returns is
  kept as a field of the same name.
\<close>

record RefreshRateConfigs =
  mRefreshRateSwitchingSupported :: bool
  mRefreshRateMap :: "RefreshRateType \<rightharpoonup> RefreshRate"
  getCurrentRefreshRate :: "RefreshRateType \<times> RefreshRate"

definition refreshRateSwitchingSupported :: "RefreshRateConfigs \<Rightarrow> bool" where
  "refreshRateSwitchingSupported c = mRefreshRateSwitchingSupported c"

text \<open>Iterating a \<open>std::map\<close> visits the keys in increasing order: \<open>DEFAULT\<close>, then
  \<open>PERFORMANCE\<close>.\<close>

definition getRefreshRateMap :: "RefreshRateConfigs \<Rightarrow> (RefreshRateType \<times> RefreshRate) list" where
  "getRefreshRateMap c =
     List.map_filter (\<lambda>k. map_option (Pair k) (mRefreshRateMap c k)) [DEFAULT, PERFORMANCE]"

text \<open>Modelled from the spec: \<open>RefreshRateConfigs::getRefreshRateFromType\<close>, whose body is not
  in the sources, yields the rate the map holds for the type (``the refresh rate in the rate
  map''). \<open>None\<close> stands for a type the map does not hold; \<open>calculateRefreshRateType\<close> asks
  for a type it has just read from the map.\<close>

definition getRefreshRateFromType :: "RefreshRateConfigs \<Rightarrow> RefreshRateType \<Rightarrow> RefreshRate option" where
  "getRefreshRateFromType c t = mRefreshRateMap c t"

section \<open>Scheduler state (Scheduler.cpp)\<close>

datatype ContentDetectionState = Off | On
datatype TimerState = Reset | Expired
datatype TouchState = Inactive | Active

record Features =
  contentRefreshRate :: "32 word"
  isHDRContent :: bool
  contentDetection :: ContentDetectionState
  idleTimer :: TimerState
  touch :: TouchState
  displayPowerTimer :: TimerState
  isDisplayPowerStateNormal :: bool
  refreshRateType :: RefreshRateType

text \<open>
  A connection handle is its integer id; event threads and connections are objects outside
  the scheduler and are named by numbers here.
\<close>

type_synonym ConnectionHandle = nat
type_synonym EventThread = nat
type_synonym EventThreadConnection = nat

record Connection =
  connection :: EventThreadConnection
  thread :: EventThread

text \<open>What the scheduler asks of an event thread.\<close>

datatype EventThreadCall =
    CreateEventConnection int
  | OnHotplugReceived "64 word" bool
  | OnScreenAcquired
  | OnScreenReleased
  | OnConfigChanged "64 word" "32 word"
  | Dump
  | SetPhaseOffset int

text \<open>
  The scheduler acts on its collaborators (DispSync, the event-control thread, the event
  threads, the registered change callback) by calling them. The calls are kept, in order, in
  the field \<open>calls\<close>. \<open>ResyncToHardwareVsyncCall\<close> records an invocation of the scheduler's own
  \<open>resyncToHardwareVsync\<close>, so that statements about how often a resync is triggered can be
  written down.
\<close>

datatype Call =
    DispSyncSetPeriod int
  | DispSyncBeginResync
  | DispSyncEndResync
  | DispSyncAddResyncSample int
  | DispSyncAddPresentFence
  | SetVsyncEnabled bool
  | ChangeRefreshRateCallback RefreshRateType RefreshRateConfigEvent
  | EventThreadCalled EventThread EventThreadCall
  | ResyncToHardwareVsyncCall bool int

text \<open>
  \<open>mChangeRefreshRateCallback\<close> is a \<open>std::function\<close>; the field says whether one is
  registered. \<open>nsecs_t\<close> is \<open>int64_t\<close>; clock readings and periods are integers here (the
  monotonic clock counts up from zero, so the differences the scheduler takes stay in range).
\<close>

record Scheduler =
  mRefreshRateConfigs :: RefreshRateConfigs
  mForceHDRContentToDefaultRefreshRate :: bool
  mFeatures :: Features
  mChangeRefreshRateCallback :: bool
  mPrimaryHWVsyncEnabled :: bool
  mHWVsyncAvailable :: bool
  mLastResyncTime :: int
  mConnections :: "ConnectionHandle \<rightharpoonup> Connection"
  mNextConnectionHandleId :: nat
  calls :: "Call list"

section \<open>Choosing the refresh-rate type\<close>

text \<open>
  \<open>calculateRefreshRateType\<close> computes in \<open>float\<close>. A \<open>float\<close> operation is modelled as the
  exact operation on rationals followed by a rounding function \<open>rnd\<close>, which is a parameter:
  IEEE-754 single precision rounds to nearest with a relative error of at most \<open>2\<^sup>-\<^sup>2\<^sup>4\<close> on
  the quantities that occur here. Division by \<open>0.0f\<close> gives an infinity or a NaN, whose
  rounded difference is a NaN, and every comparison with a NaN is false; the two tests
  below say so for \<open>rate = 0\<close>.
\<close>

type_synonym rounding = "rat \<Rightarrow> rat"

definition float_of_uint32 :: "rounding \<Rightarrow> 32 word \<Rightarrow> rat" where
  "float_of_uint32 rnd w = rnd (of_nat (unat w))"

text \<open>\<open>std::round\<close>: to the nearest integer, halfway cases away from zero.\<close>

definition std_round :: "rat \<Rightarrow> rat" where
  "std_round x = (if 0 \<le> x then of_int \<lfloor>x + 1 / 2\<rfloor> else of_int \<lceil>x - 1 / 2\<rceil>)"

definition MARGIN :: "rounding \<Rightarrow> rat" where
  "MARGIN rnd = rnd (5 / 100)"

text \<open>\<open>std::abs(lhs.second.fps - rate)\<close>\<close>

definition fps_distance :: "rounding \<Rightarrow> rat \<Rightarrow> RefreshRate \<Rightarrow> rat" where
  "fps_distance rnd rate r = \<bar>rnd (float_of_uint32 rnd (fps r) - rate)\<bar>"

text \<open>\<open>ratio = fps / rate\<close> and \<open>std::abs(std::round(ratio) - ratio)\<close>, for \<open>rate \<noteq> 0\<close>\<close>

definition fps_ratio :: "rounding \<Rightarrow> rat \<Rightarrow> RefreshRate \<Rightarrow> rat" where
  "fps_ratio rnd rate r = rnd (float_of_uint32 rnd (fps r) / rate)"

definition ratio_error :: "rounding \<Rightarrow> rat \<Rightarrow> rat" where
  "ratio_error rnd ratio = \<bar>rnd (std_round ratio - ratio)\<bar>"

definition ratio_exceeds_margin :: "rounding \<Rightarrow> rat \<Rightarrow> RefreshRate \<Rightarrow> bool" where
  "ratio_exceeds_margin rnd rate r \<longleftrightarrow>
     rate \<noteq> 0 \<and> ratio_error rnd (fps_ratio rnd rate r) > MARGIN rnd"

definition ratio_within_margin :: "rounding \<Rightarrow> rat \<Rightarrow> RefreshRate \<Rightarrow> bool" where
  "ratio_within_margin rnd rate r \<longleftrightarrow>
     rate \<noteq> 0 \<and> ratio_error rnd (fps_ratio rnd rate r) \<le> MARGIN rnd"

text \<open>
  \<open>std::min_element\<close> returns an iterator: the position of the first smallest element. An
  iterator into the list of entries is the rest of the list from that position on; the empty
  list is \<open>cend()\<close>.
\<close>

fun min_element_loop :: "('a \<Rightarrow> 'a \<Rightarrow> bool) \<Rightarrow> 'a list \<Rightarrow> 'a list \<Rightarrow> 'a list" where
  "min_element_loop cmp smallest [] = smallest"
| "min_element_loop cmp [] (x # xs) = min_element_loop cmp (x # xs) xs"
| "min_element_loop cmp (s # rest) (x # xs) =
     (if cmp x s then min_element_loop cmp (x # xs) xs
      else min_element_loop cmp (s # rest) xs)"

definition min_element :: "('a \<Rightarrow> 'a \<Rightarrow> bool) \<Rightarrow> 'a list \<Rightarrow> 'a list" where
  "min_element cmp xs = (case xs of [] \<Rightarrow> [] | x # rest \<Rightarrow> min_element_loop cmp (x # rest) rest)"

text \<open>The \<open>while\<close> loop: from \<open>iter\<close> on, the first entry whose ratio is within the margin.\<close>

fun scan_for_ratio :: "rounding \<Rightarrow> rat \<Rightarrow> (RefreshRateType \<times> RefreshRate) list \<Rightarrow> RefreshRateType option" where
  "scan_for_ratio rnd rate [] = None"
| "scan_for_ratio rnd rate ((t, r) # rest) =
     (if ratio_within_margin rnd rate r then Some t else scan_for_ratio rnd rate rest)"

text \<open>
  The result is \<open>None\<close> where the source dereferences the end iterator of an empty rate map
  (or asks for a type the map does not hold), which is undefined behaviour.
\<close>

definition calculateRefreshRateType :: "rounding \<Rightarrow> Scheduler \<Rightarrow> RefreshRateType option" where
  "calculateRefreshRateType rnd s =
     (if \<not> refreshRateSwitchingSupported (mRefreshRateConfigs s) then Some DEFAULT
      else if mForceHDRContentToDefaultRefreshRate s \<and> isHDRContent (mFeatures s) then Some DEFAULT
      else if \<not> isDisplayPowerStateNormal (mFeatures s) \<or> displayPowerTimer (mFeatures s) = Reset
        then Some PERFORMANCE
      else if touch (mFeatures s) = Active then Some PERFORMANCE
      else if idleTimer (mFeatures s) = Expired then Some DEFAULT
      else if contentDetection (mFeatures s) = Off then Some PERFORMANCE
      else
        let rate = float_of_uint32 rnd (contentRefreshRate (mFeatures s));
            iter = min_element (\<lambda>lhs rhs. fps_distance rnd rate (snd lhs) < fps_distance rnd rate (snd rhs))
                     (getRefreshRateMap (mRefreshRateConfigs s))
        in case iter of
             [] \<Rightarrow> None
           | (currRefreshRateType, _) # _ \<Rightarrow>
               (case getRefreshRateFromType (mRefreshRateConfigs s) currRefreshRateType of
                  None \<Rightarrow> None
                | Some r \<Rightarrow>
                    if ratio_exceeds_margin rnd rate r
                    then (case scan_for_ratio rnd rate iter of
                            None \<Rightarrow> Some currRefreshRateType
                          | Some t \<Rightarrow> Some t)
                    else Some currRefreshRateType))"

text \<open>
  \<open>changeRefreshRate\<close> invokes the registered callback, if there is one.
\<close>

definition changeRefreshRate :: "RefreshRateType \<Rightarrow> RefreshRateConfigEvent \<Rightarrow> Scheduler \<Rightarrow> Scheduler" where
  "changeRefreshRate refreshRateType' configEvent s =
     (if mChangeRefreshRateCallback s
      then s\<lparr>calls := calls s @ [ChangeRefreshRateCallback refreshRateType' configEvent]\<rparr>
      else s)"

text \<open>
  \<open>handleTimerStateChanged\<close> takes a pointer to one field of \<open>mFeatures\<close>: here the pair of
  the field's selector and its update. The result is \<open>None\<close> where
  \<open>calculateRefreshRateType\<close> is undefined.
\<close>

definition handleTimerStateChanged ::
  "rounding \<Rightarrow> (Features \<Rightarrow> 'a) \<Rightarrow> ('a \<Rightarrow> Features \<Rightarrow> Features) \<Rightarrow> 'a \<Rightarrow> bool \<Rightarrow> Scheduler
     \<Rightarrow> Scheduler option" where
  "handleTimerStateChanged rnd currentState setCurrentState newState eventOnContentDetection s =
     (if currentState (mFeatures s) = newState then Some s
      else
        let s1 = s\<lparr>mFeatures := setCurrentState newState (mFeatures s)\<rparr>
        in case calculateRefreshRateType rnd s1 of
             None \<Rightarrow> None
           | Some newRefreshRateType \<Rightarrow>
               if refreshRateType (mFeatures s1) = newRefreshRateType then Some s1
               else
                 let s2 = s1\<lparr>mFeatures := (mFeatures s1)\<lparr>refreshRateType := newRefreshRateType\<rparr>\<rparr>;
                     event = (if eventOnContentDetection \<and> contentDetection (mFeatures s2) = On
                              then Changed else NoneEvent)
                 in Some (changeRefreshRate newRefreshRateType event s2))"

definition idleTimerCallback :: "rounding \<Rightarrow> TimerState \<Rightarrow> Scheduler \<Rightarrow> Scheduler option" where
  "idleTimerCallback rnd state s =
     handleTimerStateChanged rnd idleTimer (\<lambda>v f. f\<lparr>idleTimer := v\<rparr>) state False s"

definition touchTimerCallback :: "rounding \<Rightarrow> TimerState \<Rightarrow> Scheduler \<Rightarrow> Scheduler option" where
  "touchTimerCallback rnd state s =
     (let touch' = (if state = Reset then Active else Inactive)
      in handleTimerStateChanged rnd touch (\<lambda>v f. f\<lparr>touch := v\<rparr>) touch' True s)"

definition displayPowerTimerCallback :: "rounding \<Rightarrow> TimerState \<Rightarrow> Scheduler \<Rightarrow> Scheduler option" where
  "displayPowerTimerCallback rnd state s =
     handleTimerStateChanged rnd displayPowerTimer (\<lambda>v f. f\<lparr>displayPowerTimer := v\<rparr>) state True s"

text \<open>The three timers, to speak about their callbacks together.\<close>

datatype Timer = IdleTimer | TouchTimer | DisplayPowerTimer

fun timerCallback :: "rounding \<Rightarrow> Timer \<Rightarrow> TimerState \<Rightarrow> Scheduler \<Rightarrow> Scheduler option" where
  "timerCallback rnd IdleTimer state s = idleTimerCallback rnd state s"
| "timerCallback rnd TouchTimer state s = touchTimerCallback rnd state s"
| "timerCallback rnd DisplayPowerTimer state s = displayPowerTimerCallback rnd state s"

text \<open>The feature state with the timer's field set as the callback sets it.\<close>

fun withTimerState :: "Timer \<Rightarrow> TimerState \<Rightarrow> Features \<Rightarrow> Features" where
  "withTimerState IdleTimer state f = f\<lparr>idleTimer := state\<rparr>"
| "withTimerState TouchTimer state f = f\<lparr>touch := (if state = Reset then Active else Inactive)\<rparr>"
| "withTimerState DisplayPowerTimer state f = f\<lparr>displayPowerTimer := state\<rparr>"

text \<open>Whether the timer's field already holds the state the callback would store.\<close>

fun timerStateIs :: "Timer \<Rightarrow> TimerState \<Rightarrow> Features \<Rightarrow> bool" where
  "timerStateIs IdleTimer state f \<longleftrightarrow> idleTimer f = state"
| "timerStateIs TouchTimer state f \<longleftrightarrow> touch f = (if state = Reset then Active else Inactive)"
| "timerStateIs DisplayPowerTimer state f \<longleftrightarrow> displayPowerTimer f = state"

section \<open>Hardware vsync\<close>

definition enableHardwareVsync :: "Scheduler \<Rightarrow> Scheduler" where
  "enableHardwareVsync s =
     (if \<not> mPrimaryHWVsyncEnabled s \<and> mHWVsyncAvailable s
      then s\<lparr>mPrimaryHWVsyncEnabled := True,
             calls := calls s @ [DispSyncBeginResync, SetVsyncEnabled True]\<rparr>
      else s)"

definition disableHardwareVsync :: "bool \<Rightarrow> Scheduler \<Rightarrow> Scheduler" where
  "disableHardwareVsync makeUnavailable s =
     (let s1 = (if mPrimaryHWVsyncEnabled s
                then s\<lparr>mPrimaryHWVsyncEnabled := False,
                       calls := calls s @ [SetVsyncEnabled False, DispSyncEndResync]\<rparr>
                else s)
      in if makeUnavailable then s1\<lparr>mHWVsyncAvailable := False\<rparr> else s1)"

definition setVsyncPeriod :: "int \<Rightarrow> Scheduler \<Rightarrow> Scheduler" where
  "setVsyncPeriod period s =
     (let s1 = s\<lparr>calls := calls s @ [DispSyncSetPeriod period]\<rparr>
      in if \<not> mPrimaryHWVsyncEnabled s1
         then s1\<lparr>mPrimaryHWVsyncEnabled := True,
                 calls := calls s1 @ [DispSyncBeginResync, SetVsyncEnabled True]\<rparr>
         else s1)"

text \<open>The early return inside the locked block is the \<open>None\<close> of the inner test.\<close>

definition resyncToHardwareVsync :: "bool \<Rightarrow> int \<Rightarrow> Scheduler \<Rightarrow> Scheduler" where
  "resyncToHardwareVsync makeAvailable period s =
     (let s0 = s\<lparr>calls := calls s @ [ResyncToHardwareVsyncCall makeAvailable period]\<rparr>
      in case (if makeAvailable then Some (s0\<lparr>mHWVsyncAvailable := makeAvailable\<rparr>)
               else if \<not> mHWVsyncAvailable s0 then None
               else Some s0) of
           None \<Rightarrow> s0
         | Some s1 \<Rightarrow> if period \<le> 0 then s1 else setVsyncPeriod period s1)"

definition kIgnoreDelay :: int where
  "kIgnoreDelay = 750 * 1000000"

text \<open>\<open>now\<close> is the reading of \<open>systemTime()\<close>.\<close>

definition resync :: "int \<Rightarrow> Scheduler \<Rightarrow> Scheduler" where
  "resync now s =
     (let last = mLastResyncTime s;
          s1 = s\<lparr>mLastResyncTime := now\<rparr>
      in if now - last > kIgnoreDelay
         then resyncToHardwareVsync False
                (vsyncPeriod (snd (getCurrentRefreshRate (mRefreshRateConfigs s1)))) s1
         else s1)"

text \<open>
  \<open>addResyncSample\<close> and \<open>addPresentFence\<close> ask DispSync, whose answers are arguments here:
  \<open>dispSyncNeedsHwVsync\<close> is what it returns and \<open>dispSyncPeriodFlushed\<close> what it stores
  through the pointer. The second component of \<open>addResyncSample\<close>'s result is the final
  \<open>*periodFlushed\<close>.
\<close>

definition addResyncSample :: "int \<Rightarrow> bool \<Rightarrow> bool \<Rightarrow> Scheduler \<Rightarrow> Scheduler \<times> bool" where
  "addResyncSample timestamp dispSyncNeedsHwVsync dispSyncPeriodFlushed s =
     (let (s1, needsHwVsync, periodFlushed) =
            (if mPrimaryHWVsyncEnabled s
             then (s\<lparr>calls := calls s @ [DispSyncAddResyncSample timestamp]\<rparr>,
                   dispSyncNeedsHwVsync, dispSyncPeriodFlushed)
             else (s, False, False))
      in (if needsHwVsync then enableHardwareVsync s1 else disableHardwareVsync False s1,
          periodFlushed))"

definition addPresentFence :: "bool \<Rightarrow> Scheduler \<Rightarrow> Scheduler" where
  "addPresentFence dispSyncNeedsHwVsync s =
     (let s1 = s\<lparr>calls := calls s @ [DispSyncAddPresentFence]\<rparr>
      in if dispSyncNeedsHwVsync then enableHardwareVsync s1 else disableHardwareVsync False s1)"

text \<open>The operations on the hardware-vsync state, and a run of them.\<close>

datatype HWVsyncOp =
    EnableHardwareVsync
  | DisableHardwareVsync bool
  | ResyncToHardwareVsync bool int
  | Resync int
  | AddResyncSample int bool bool
  | AddPresentFence bool

fun applyHWVsyncOp :: "HWVsyncOp \<Rightarrow> Scheduler \<Rightarrow> Scheduler" where
  "applyHWVsyncOp EnableHardwareVsync s = enableHardwareVsync s"
| "applyHWVsyncOp (DisableHardwareVsync makeUnavailable) s = disableHardwareVsync makeUnavailable s"
| "applyHWVsyncOp (ResyncToHardwareVsync makeAvailable period) s =
     resyncToHardwareVsync makeAvailable period s"
| "applyHWVsyncOp (Resync now) s = resync now s"
| "applyHWVsyncOp (AddResyncSample timestamp needs flushed) s =
     fst (addResyncSample timestamp needs flushed s)"
| "applyHWVsyncOp (AddPresentFence needs) s = addPresentFence needs s"

fun runHWVsyncOps :: "HWVsyncOp list \<Rightarrow> Scheduler \<Rightarrow> Scheduler" where
  "runHWVsyncOps [] s = s"
| "runHWVsyncOps (op # ops) s = runHWVsyncOps ops (applyHWVsyncOp op s)"

text \<open>
  The calls \<open>resyncToHardwareVsync(true, period)\<close>: all of them, and those with a positive
  period.
\<close>

fun makesAvailable :: "HWVsyncOp \<Rightarrow> bool" where
  "makesAvailable (ResyncToHardwareVsync makeAvailable period) = makeAvailable"
| "makesAvailable _ = False"

fun makesAvailableWithPositivePeriod :: "HWVsyncOp \<Rightarrow> bool" where
  "makesAvailableWithPositivePeriod (ResyncToHardwareVsync makeAvailable period) \<longleftrightarrow>
     makeAvailable \<and> 0 < period"
| "makesAvailableWithPositivePeriod _ = False"

text \<open>How often \<open>resyncToHardwareVsync\<close> has been invoked.\<close>

definition resyncCount :: "Scheduler \<Rightarrow> nat" where
  "resyncCount s =
     length (filter (\<lambda>c. case c of ResyncToHardwareVsyncCall _ _ \<Rightarrow> True | _ \<Rightarrow> False) (calls s))"

section \<open>Connection registry\<close>

text \<open>
  \<open>RETURN_IF_INVALID_HANDLE\<close> returns the default when \<open>mConnections.count(handle) == 0\<close>;
  past it, \<open>mConnections[handle]\<close> reads an entry that exists. The connection an event
  thread creates is the argument \<open>created\<close>. The enum \<open>ISurfaceComposer::ConfigChanged\<close> is
  given by its integer value, a display id by its 64-bit value, \<open>nullptr\<close> by \<open>None\<close>.
\<close>

definition createConnectionInternal ::
  "EventThread \<Rightarrow> int \<Rightarrow> EventThreadConnection \<Rightarrow> Scheduler \<Rightarrow> EventThreadConnection \<times> Scheduler" where
  "createConnectionInternal eventThread configChanged created s =
     (created, s\<lparr>calls := calls s @ [EventThreadCalled eventThread (CreateEventConnection configChanged)]\<rparr>)"

definition createDisplayEventConnection ::
  "ConnectionHandle \<Rightarrow> int \<Rightarrow> EventThreadConnection \<Rightarrow> Scheduler
     \<Rightarrow> EventThreadConnection option \<times> Scheduler" where
  "createDisplayEventConnection handle configChanged created s =
     (case mConnections s handle of
        None \<Rightarrow> (None, s)
      | Some c \<Rightarrow>
          (let (conn, s') = createConnectionInternal (thread c) configChanged created s
           in (Some conn, s')))"

definition getEventThread :: "ConnectionHandle \<Rightarrow> Scheduler \<Rightarrow> EventThread option \<times> Scheduler" where
  "getEventThread handle s =
     (case mConnections s handle of None \<Rightarrow> (None, s) | Some c \<Rightarrow> (Some (thread c), s))"

definition getEventConnection ::
  "ConnectionHandle \<Rightarrow> Scheduler \<Rightarrow> EventThreadConnection option \<times> Scheduler" where
  "getEventConnection handle s =
     (case mConnections s handle of None \<Rightarrow> (None, s) | Some c \<Rightarrow> (Some (connection c), s))"

text \<open>
  The six operations that follow have one shape,
  \<open>RETURN_IF_INVALID_HANDLE(handle); mConnections[handle].thread->call(...)\<close>.
\<close>

definition forwardToEventThread :: "ConnectionHandle \<Rightarrow> EventThreadCall \<Rightarrow> Scheduler \<Rightarrow> Scheduler" where
  "forwardToEventThread handle call s =
     (case mConnections s handle of
        None \<Rightarrow> s
      | Some c \<Rightarrow> s\<lparr>calls := calls s @ [EventThreadCalled (thread c) call]\<rparr>)"

definition onHotplugReceived :: "ConnectionHandle \<Rightarrow> 64 word \<Rightarrow> bool \<Rightarrow> Scheduler \<Rightarrow> Scheduler" where
  "onHotplugReceived handle displayId isConnected s =
     forwardToEventThread handle (OnHotplugReceived displayId isConnected) s"

definition onScreenAcquired :: "ConnectionHandle \<Rightarrow> Scheduler \<Rightarrow> Scheduler" where
  "onScreenAcquired handle s = forwardToEventThread handle OnScreenAcquired s"

definition onScreenReleased :: "ConnectionHandle \<Rightarrow> Scheduler \<Rightarrow> Scheduler" where
  "onScreenReleased handle s = forwardToEventThread handle OnScreenReleased s"

definition onConfigChanged :: "ConnectionHandle \<Rightarrow> 64 word \<Rightarrow> 32 word \<Rightarrow> Scheduler \<Rightarrow> Scheduler" where
  "onConfigChanged handle displayId configId' s =
     forwardToEventThread handle (OnConfigChanged displayId configId') s"

definition dump :: "ConnectionHandle \<Rightarrow> Scheduler \<Rightarrow> Scheduler" where
  "dump handle s = forwardToEventThread handle Dump s"

definition setPhaseOffset :: "ConnectionHandle \<Rightarrow> int \<Rightarrow> Scheduler \<Rightarrow> Scheduler" where
  "setPhaseOffset handle phaseOffset s = forwardToEventThread handle (SetPhaseOffset phaseOffset) s"

section \<open>Display (Display.cpp) over its base Output (Output.cpp)\<close>

type_synonym DisplayId = "64 word"
type_synonym HwcLayer = nat
type_synonym status_t = int

definition NO_ERROR :: status_t where
  "NO_ERROR = 0"

datatype Fence = NO_FENCE | Fence nat

record FrameFences =
  presentFence :: Fence
  clientTargetAcquireFence :: Fence
  layerFences :: "HwcLayer \<rightharpoonup> Fence"

text \<open>
  What the hardware composer asks for. The two \<open>unordered_map\<close>s are given by their entries
  (\<open>find\<close> is \<open>map_of\<close>, \<open>empty()\<close> is \<open>[]\<close>); composition types, layer requests, color
  modes, dataspaces and render intents are enums of the hardware interface and appear as
  their integer values.
\<close>

record DeviceRequestedChanges =
  changedTypes :: "(HwcLayer \<times> int) list"
  displayRequests :: "32 word"
  layerRequests :: "(HwcLayer \<times> int) list"

text \<open>\<open>HWC2::DisplayRequest::FlipClientTarget\<close>, bit 0 of the display requests.\<close>

definition FlipClientTarget :: "32 word" where
  "FlipClientTarget = 1"

text \<open>The fields of \<open>OutputCompositionState\<close> that the functions below read or write.\<close>

record OutputCompositionState =
  usesClientComposition :: bool
  usesDeviceComposition :: bool
  flipClientTarget :: bool
  colorMode :: int
  dataspace :: int
  renderIntent :: int
  targetDataspace :: int

text \<open>The calls a display makes on the hardware composer; \<open>'m\<close> is the type of \<open>mat4\<close>.\<close>

datatype 'm HwcCall =
    DisconnectDisplay DisplayId
  | SetColorTransform DisplayId 'm
  | SetActiveColorMode DisplayId int int
  | GetDeviceCompositionChanges DisplayId bool
  | PresentAndGetReleaseFences DisplayId
  | GetPresentFence DisplayId
  | GetLayerReleaseFence DisplayId HwcLayer
  | ClearReleaseFences DisplayId

text \<open>
  \<open>OutputLayer\<close> is implemented outside these sources. Its member functions that
  \<open>Display\<close> calls are parameters: \<open>'l\<close> is the state of one output layer, and a member
  function that changes the layer returns the changed state.
\<close>

record 'l OutputLayerOps =
  requiresClientComposition :: "'l \<Rightarrow> bool"
  getHwcLayer :: "'l \<Rightarrow> HwcLayer option"
  applyDeviceCompositionTypeChange :: "int \<Rightarrow> 'l \<Rightarrow> 'l"
  prepareForDeviceLayerRequests :: "'l \<Rightarrow> 'l"
  applyDeviceLayerRequest :: "int \<Rightarrow> 'l \<Rightarrow> 'l"

text \<open>
  The other collaborators, parameters as well: what the hardware composer answers, the
  display color profile, the render surface, and the two member functions of the base class
  that this version of \<open>Display\<close> calls but \<open>Output.cpp\<close> does not contain; they act on the
  composition state.
\<close>

record 'm Collaborators =
  getDeviceCompositionChanges :: "DisplayId \<Rightarrow> bool \<Rightarrow> status_t \<times> DeviceRequestedChanges option"
  getPresentFence :: "DisplayId \<Rightarrow> Fence"
  getLayerReleaseFence :: "DisplayId \<Rightarrow> HwcLayer \<Rightarrow> Fence"
  getTargetDataspace :: "int \<Rightarrow> int \<Rightarrow> int \<Rightarrow> int"
  getClientTargetAcquireFence :: Fence
  Output_setColorTransform :: "'m \<Rightarrow> OutputCompositionState \<Rightarrow> OutputCompositionState"
  Output_setColorMode :: "int \<Rightarrow> int \<Rightarrow> int \<Rightarrow> int \<Rightarrow> OutputCompositionState \<Rightarrow> OutputCompositionState"

text \<open>
  A display: the members of \<open>Display\<close>, the state and the layers it inherits from \<open>Output\<close>,
  and the calls it has made on the hardware composer.
\<close>

record ('l, 'm) Display =
  mIsVirtual :: bool
  mId :: "DisplayId option"
  mState :: OutputCompositionState
  mOutputLayersOrderedByZ :: "'l list"
  hwcCalls :: "'m HwcCall list"

text \<open>
  \<open>*mId\<close> on an \<open>std::optional\<close> that holds no value is undefined behaviour; it is the
  error of this model.
\<close>

datatype DisplayError = EmptyOptionalDereferenced

definition dereference :: "'a option \<Rightarrow> DisplayError + 'a" where
  "dereference x = (case x of None \<Rightarrow> Inl EmptyOptionalDereferenced | Some v \<Rightarrow> Inr v)"

definition disconnect :: "('l, 'm) Display \<Rightarrow> DisplayError + ('l, 'm) Display" where
  "disconnect d =
     (if mId d = None then Inr d
      else case dereference (mId d) of
             Inl e \<Rightarrow> Inl e
           | Inr i \<Rightarrow> Inr (d\<lparr>mId := None, hwcCalls := hwcCalls d @ [DisconnectDisplay i]\<rparr>))"

definition setColorTransform ::
  "'m Collaborators \<Rightarrow> 'm \<Rightarrow> ('l, 'm) Display \<Rightarrow> DisplayError + ('l, 'm) Display" where
  "setColorTransform env transform d =
     (let d1 = d\<lparr>mState := Output_setColorTransform env transform (mState d)\<rparr>
      in case dereference (mId d1) of
           Inl e \<Rightarrow> Inl e
         | Inr i \<Rightarrow> Inr (d1\<lparr>hwcCalls := hwcCalls d1 @ [SetColorTransform i transform]\<rparr>))"

definition setColorMode ::
  "'m Collaborators \<Rightarrow> int \<Rightarrow> int \<Rightarrow> int \<Rightarrow> int \<Rightarrow> ('l, 'm) Display \<Rightarrow> DisplayError + ('l, 'm) Display" where
  "setColorMode env mode dataspace' renderIntent' colorSpaceAgnosticDataspace d =
     (let targetDataspace' = getTargetDataspace env mode dataspace' colorSpaceAgnosticDataspace
      in if mode = colorMode (mState d) \<and> dataspace' = dataspace (mState d) \<and>
            renderIntent' = renderIntent (mState d) \<and> targetDataspace' = targetDataspace (mState d)
         then Inr d
         else if mIsVirtual d then Inr d
         else
           let d1 = d\<lparr>mState := Output_setColorMode env mode dataspace' renderIntent'
                                    colorSpaceAgnosticDataspace (mState d)\<rparr>
           in case dereference (mId d1) of
                Inl e \<Rightarrow> Inl e
              | Inr i \<Rightarrow> Inr (d1\<lparr>hwcCalls := hwcCalls d1 @ [SetActiveColorMode i mode renderIntent']\<rparr>))"

definition anyLayersRequireClientComposition :: "'l OutputLayerOps \<Rightarrow> ('l, 'm) Display \<Rightarrow> bool" where
  "anyLayersRequireClientComposition ops d =
     list_ex (requiresClientComposition ops) (mOutputLayersOrderedByZ d)"

definition allLayersRequireClientComposition :: "'l OutputLayerOps \<Rightarrow> ('l, 'm) Display \<Rightarrow> bool" where
  "allLayersRequireClientComposition ops d =
     list_all (requiresClientComposition ops) (mOutputLayersOrderedByZ d)"

definition applyChangedTypesToLayers ::
  "'l OutputLayerOps \<Rightarrow> (HwcLayer \<times> int) list \<Rightarrow> ('l, 'm) Display \<Rightarrow> ('l, 'm) Display" where
  "applyChangedTypesToLayers ops changedTypes' d =
     (if changedTypes' = [] then d
      else d\<lparr>mOutputLayersOrderedByZ :=
               map (\<lambda>layer.
                      case getHwcLayer ops layer of
                        None \<Rightarrow> layer
                      | Some hwcLayer \<Rightarrow>
                          (case map_of changedTypes' hwcLayer of
                             None \<Rightarrow> layer
                           | Some t \<Rightarrow> applyDeviceCompositionTypeChange ops t layer))
                 (mOutputLayersOrderedByZ d)\<rparr>)"

definition applyDisplayRequests :: "32 word \<Rightarrow> ('l, 'm) Display \<Rightarrow> ('l, 'm) Display" where
  "applyDisplayRequests displayRequests' d =
     d\<lparr>mState := (mState d)\<lparr>flipClientTarget := (displayRequests' AND FlipClientTarget \<noteq> 0)\<rparr>\<rparr>"

definition applyLayerRequestsToLayers ::
  "'l OutputLayerOps \<Rightarrow> (HwcLayer \<times> int) list \<Rightarrow> ('l, 'm) Display \<Rightarrow> ('l, 'm) Display" where
  "applyLayerRequestsToLayers ops layerRequests' d =
     d\<lparr>mOutputLayersOrderedByZ :=
         map (\<lambda>layer.
                let layer1 = prepareForDeviceLayerRequests ops layer
                in case getHwcLayer ops layer1 of
                     None \<Rightarrow> layer1
                   | Some hwcLayer \<Rightarrow>
                       (case map_of layerRequests' hwcLayer of
                          None \<Rightarrow> layer1
                        | Some r \<Rightarrow> applyDeviceLayerRequest ops r layer1))
           (mOutputLayersOrderedByZ d)\<rparr>"

text \<open>\<open>Output::chooseCompositionStrategy\<close>: the base output can only do client composition.\<close>

definition Output_chooseCompositionStrategy :: "OutputCompositionState \<Rightarrow> OutputCompositionState" where
  "Output_chooseCompositionStrategy st = st\<lparr>usesClientComposition := True, usesDeviceComposition := False\<rparr>"

definition chooseCompositionStrategy ::
  "'l OutputLayerOps \<Rightarrow> 'm Collaborators \<Rightarrow> ('l, 'm) Display \<Rightarrow> DisplayError + ('l, 'm) Display" where
  "chooseCompositionStrategy ops env d =
     (let d0 = d\<lparr>mState := Output_chooseCompositionStrategy (mState d)\<rparr>
      in if mId d0 = None then Inr d0
         else case dereference (mId d0) of
                Inl e \<Rightarrow> Inl e
              | Inr i \<Rightarrow>
                  let needsClient = anyLayersRequireClientComposition ops d0;
                      (result, changes) = getDeviceCompositionChanges env i needsClient;
                      d1 = d0\<lparr>hwcCalls := hwcCalls d0 @ [GetDeviceCompositionChanges i needsClient]\<rparr>
                  in if result \<noteq> NO_ERROR then Inr d1
                     else
                       let d2 = (case changes of
                                   None \<Rightarrow> d1
                                 | Some c \<Rightarrow>
                                     applyLayerRequestsToLayers ops (layerRequests c)
                                       (applyDisplayRequests (displayRequests c)
                                          (applyChangedTypesToLayers ops (changedTypes c) d1)))
                       in Inr (d2\<lparr>mState := (mState d2)
                                   \<lparr>usesClientComposition := anyLayersRequireClientComposition ops d2,
                                    usesDeviceComposition := \<not> allLayersRequireClientComposition ops d2\<rparr>\<rparr>))"

text \<open>\<open>Output::presentAndGetFrameFences\<close>\<close>

definition Output_presentAndGetFrameFences :: "'m Collaborators \<Rightarrow> ('l, 'm) Display \<Rightarrow> FrameFences" where
  "Output_presentAndGetFrameFences env d =
     \<lparr>presentFence = NO_FENCE,
      clientTargetAcquireFence =
        (if usesClientComposition (mState d) then getClientTargetAcquireFence env else NO_FENCE),
      layerFences = Map.empty\<rparr>"

text \<open>
  The loop over the layers: \<open>emplace\<close> asks the hardware composer for the fence and keeps
  the entry a key already has.
\<close>

fun collectLayerFences ::
  "'l OutputLayerOps \<Rightarrow> 'm Collaborators \<Rightarrow> DisplayId \<Rightarrow> 'l list \<Rightarrow> FrameFences \<times> 'm HwcCall list
     \<Rightarrow> FrameFences \<times> 'm HwcCall list" where
  "collectLayerFences ops env i [] acc = acc"
| "collectLayerFences ops env i (layer # rest) (result, made) =
     (case getHwcLayer ops layer of
        None \<Rightarrow> collectLayerFences ops env i rest (result, made)
      | Some hwcLayer \<Rightarrow>
          collectLayerFences ops env i rest
            (if layerFences result hwcLayer = None
             then result\<lparr>layerFences := (layerFences result)(hwcLayer \<mapsto> getLayerReleaseFence env i hwcLayer)\<rparr>
             else result,
             made @ [GetLayerReleaseFence i hwcLayer]))"

definition presentAndGetFrameFences ::
  "'l OutputLayerOps \<Rightarrow> 'm Collaborators \<Rightarrow> ('l, 'm) Display
     \<Rightarrow> DisplayError + (FrameFences \<times> ('l, 'm) Display)" where
  "presentAndGetFrameFences ops env d =
     (let result = Output_presentAndGetFrameFences env d
      in if mId d = None then Inr (result, d)
         else case dereference (mId d) of
                Inl e \<Rightarrow> Inl e
              | Inr i \<Rightarrow>
                  let made1 = hwcCalls d @ [PresentAndGetReleaseFences i, GetPresentFence i];
                      result1 = result\<lparr>presentFence := getPresentFence env i\<rparr>;
                      (result2, made2) = collectLayerFences ops env i (mOutputLayersOrderedByZ d) (result1, made1)
                  in Inr (result2, d\<lparr>hwcCalls := made2 @ [ClearReleaseFences i]\<rparr>))"

section \<open>Concrete instances\<close>

text \<open>
  A scheduler and a display on which the definitions are run: two refresh rates, 60 and 90
  frames per second, content at 45 frames per second, one connection.
\<close>

definition exampleRate60 :: RefreshRate where
  "exampleRate60 = \<lparr>configId = 0, name = ''60fps'', fps = 60, vsyncPeriod = 16666667, hwcId = 0\<rparr>"

definition exampleRate90 :: RefreshRate where
  "exampleRate90 = \<lparr>configId = 1, name = ''90fps'', fps = 90, vsyncPeriod = 11111111, hwcId = 1\<rparr>"

definition exampleConfigs :: RefreshRateConfigs where
  "exampleConfigs =
     \<lparr>mRefreshRateSwitchingSupported = True,
      mRefreshRateMap = [DEFAULT \<mapsto> exampleRate60, PERFORMANCE \<mapsto> exampleRate90],
      getCurrentRefreshRate = (DEFAULT, exampleRate60)\<rparr>"

definition exampleFeatures :: Features where
  "exampleFeatures =
     \<lparr>contentRefreshRate = 45, isHDRContent = False, contentDetection = On, idleTimer = Reset,
      touch = Inactive, displayPowerTimer = Expired, isDisplayPowerStateNormal = True,
      refreshRateType = DEFAULT\<rparr>"

definition exampleScheduler :: Scheduler where
  "exampleScheduler =
     \<lparr>mRefreshRateConfigs = exampleConfigs,
      mForceHDRContentToDefaultRefreshRate = False,
      mFeatures = exampleFeatures,
      mChangeRefreshRateCallback = True,
      mPrimaryHWVsyncEnabled = False,
      mHWVsyncAvailable = False,
      mLastResyncTime = 0,
      mConnections = [0 \<mapsto> \<lparr>connection = 10, thread = 20\<rparr>],
      mNextConnectionHandleId = 1,
      calls = []\<rparr>"

text \<open>
  An output layer for the instances: it needs client composition when it has no
  hardware-composer layer or its composition type is 1, and request 1 sets its
  clear-client-target flag.
\<close>

record ExampleLayer =
  hwcLayer :: "HwcLayer option"
  compositionType :: int
  clearClientTarget :: bool

definition exampleLayerOps :: "ExampleLayer OutputLayerOps" where
  "exampleLayerOps =
     \<lparr>requiresClientComposition = (\<lambda>l. hwcLayer l = None \<or> compositionType l = 1),
      getHwcLayer = hwcLayer,
      applyDeviceCompositionTypeChange = (\<lambda>t l. l\<lparr>compositionType := t\<rparr>),
      prepareForDeviceLayerRequests = (\<lambda>l. l\<lparr>clearClientTarget := False\<rparr>),
      applyDeviceLayerRequest = (\<lambda>r l. if r = 1 then l\<lparr>clearClientTarget := True\<rparr> else l)\<rparr>"

definition exampleCollaborators :: "nat Collaborators" where
  "exampleCollaborators =
     \<lparr>getDeviceCompositionChanges =
        (\<lambda>i needsClient.
           (NO_ERROR, Some \<lparr>changedTypes = [(1, 1)], displayRequests = 1, layerRequests = [(2, 1)]\<rparr>)),
      getPresentFence = (\<lambda>i. Fence 1),
      getLayerReleaseFence = (\<lambda>i h. Fence (h + 10)),
      getTargetDataspace = (\<lambda>mode ds agnostic. ds),
      getClientTargetAcquireFence = Fence 2,
      Output_setColorTransform = (\<lambda>m st. st),
      Output_setColorMode =
        (\<lambda>mode ds intent agnostic st.
           st\<lparr>colorMode := mode, dataspace := ds, renderIntent := intent, targetDataspace := ds\<rparr>)\<rparr>"

definition exampleDisplay :: "(ExampleLayer, nat) Display" where
  "exampleDisplay =
     \<lparr>mIsVirtual = False,
      mId = Some 7,
      mState = \<lparr>usesClientComposition = False, usesDeviceComposition = False,
                flipClientTarget = False, colorMode = 0, dataspace = 0, renderIntent = 0,
                targetDataspace = 0\<rparr>,
      mOutputLayersOrderedByZ =
        [\<lparr>hwcLayer = Some 1, compositionType = 2, clearClientTarget = True\<rparr>,
         \<lparr>hwcLayer = Some 2, compositionType = 2, clearClientTarget = False\<rparr>],
      hwcCalls = []\<rparr>"

section \<open>The refresh-rate decision\<close>

text \<open>
  C3. With refresh-rate switching supported, HDR content being forced to the default rate
  and HDR content on screen, \<open>calculateRefreshRateType\<close> returns DEFAULT, whatever the touch
  state, the display-power timer and the display power state are: the HDR rule comes before
  the display-power rule and the touch rule.
\<close>

theorem hdr_forces_default:
  assumes "refreshRateSwitchingSupported (mRefreshRateConfigs s)"
    and "mForceHDRContentToDefaultRefreshRate s"
    and "isHDRContent (mFeatures s)"
  shows "calculateRefreshRateType rnd s = Some DEFAULT"
  using assms by (simp add: calculateRefreshRateType_def)

theorem hdr_forces_default_witness:
  "refreshRateSwitchingSupported (mRefreshRateConfigs
       (exampleScheduler\<lparr>mForceHDRContentToDefaultRefreshRate := True,
          mFeatures := exampleFeatures\<lparr>isHDRContent := True, touch := Active,
             displayPowerTimer := Reset, isDisplayPowerStateNormal := False\<rparr>\<rparr>))
   \<and> calculateRefreshRateType (\<lambda>x. x)
       (exampleScheduler\<lparr>mForceHDRContentToDefaultRefreshRate := True,
          mFeatures := exampleFeatures\<lparr>isHDRContent := True, touch := Active,
             displayPowerTimer := Reset, isDisplayPowerStateNormal := False\<rparr>\<rparr>) = Some DEFAULT"
  using hdr_forces_default [of "exampleScheduler\<lparr>mForceHDRContentToDefaultRefreshRate := True,
          mFeatures := exampleFeatures\<lparr>isHDRContent := True, touch := Active,
             displayPowerTimer := Reset, isDisplayPowerStateNormal := False\<rparr>\<rparr>" "\<lambda>x. x"]
  by (simp add: exampleScheduler_def exampleFeatures_def exampleConfigs_def
        refreshRateSwitchingSupported_def)

text \<open>
  C7. With refresh-rate switching supported and none of the earlier rules applying (HDR
  content is not forced to the default rate, the display power state is normal, the
  display-power timer has expired), an active touch together with an expired idle timer
  gives PERFORMANCE: the touch rule comes before the idle-timer rule.
\<close>

theorem touch_dominates_idle:
  assumes "refreshRateSwitchingSupported (mRefreshRateConfigs s)"
    and "\<not> (mForceHDRContentToDefaultRefreshRate s \<and> isHDRContent (mFeatures s))"
    and "isDisplayPowerStateNormal (mFeatures s)"
    and "displayPowerTimer (mFeatures s) = Expired"
    and "touch (mFeatures s) = Active"
    and "idleTimer (mFeatures s) = Expired"
  shows "calculateRefreshRateType rnd s = Some PERFORMANCE"
  using assms by (simp add: calculateRefreshRateType_def)

theorem touch_dominates_idle_witness:
  "refreshRateSwitchingSupported (mRefreshRateConfigs
       (exampleScheduler\<lparr>mFeatures := exampleFeatures\<lparr>touch := Active, idleTimer := Expired\<rparr>\<rparr>))
   \<and> calculateRefreshRateType (\<lambda>x. x)
       (exampleScheduler\<lparr>mFeatures := exampleFeatures\<lparr>touch := Active, idleTimer := Expired\<rparr>\<rparr>)
     = Some PERFORMANCE"
  using touch_dominates_idle [of "exampleScheduler\<lparr>mFeatures := exampleFeatures\<lparr>touch := Active, idleTimer := Expired\<rparr>\<rparr>" "\<lambda>x. x"]
  by (simp add: exampleScheduler_def exampleFeatures_def exampleConfigs_def
        refreshRateSwitchingSupported_def)

subsection \<open>Rounding with a small relative error\<close>

lemma rnd_bounds:
  assumes "\<forall>x. \<bar>rnd x - x\<bar> \<le> \<bar>x\<bar> / 1000" and "0 \<le> (x::rat)"
  shows "999 / 1000 * x \<le> rnd x" and "rnd x \<le> 1001 / 1000 * x"
proof -
  from assms have "\<bar>rnd x - x\<bar> \<le> x / 1000" by (metis abs_of_nonneg)
  then show "999 / 1000 * x \<le> rnd x" and "rnd x \<le> 1001 / 1000 * x" by linarith+
qed

lemma rnd_abs_bounds:
  assumes "\<forall>x. \<bar>rnd x - x\<bar> \<le> \<bar>x\<bar> / 1000"
  shows "999 / 1000 * \<bar>x\<bar> \<le> \<bar>rnd x\<bar>" and "\<bar>rnd x\<bar> \<le> 1001 / 1000 * \<bar>x::rat\<bar>"
proof -
  from assms have "\<bar>rnd x - x\<bar> \<le> \<bar>x\<bar> / 1000" by blast
  then show "999 / 1000 * \<bar>x\<bar> \<le> \<bar>rnd x\<bar>" and "\<bar>rnd x\<bar> \<le> 1001 / 1000 * \<bar>x\<bar>" by linarith+
qed

lemma std_round_between:
  assumes "of_int n - 1 / 2 \<le> x" and "x < of_int n + 1 / 2" and "0 \<le> x"
  shows "std_round x = of_int n"
proof -
  have "\<lfloor>x + 1 / 2\<rfloor> = n" using assms by (intro floor_unique) simp_all
  with assms show ?thesis by (simp add: std_round_def)
qed

lemma float_of_uint32_bounds:
  assumes "\<forall>x. \<bar>rnd x - x\<bar> \<le> \<bar>x\<bar> / 1000"
  shows "44955 / 1000 \<le> float_of_uint32 rnd 45" and "float_of_uint32 rnd 45 \<le> 45045 / 1000"
    and "59940 / 1000 \<le> float_of_uint32 rnd 60" and "float_of_uint32 rnd 60 \<le> 60060 / 1000"
    and "89910 / 1000 \<le> float_of_uint32 rnd 90" and "float_of_uint32 rnd 90 \<le> 90090 / 1000"
  using rnd_bounds [OF assms, of 45] rnd_bounds [OF assms, of 60] rnd_bounds [OF assms, of 90]
  by (simp_all add: float_of_uint32_def)

lemma MARGIN_bounds:
  assumes "\<forall>x. \<bar>rnd x - x\<bar> \<le> \<bar>x\<bar> / 1000"
  shows "4995 / 100000 \<le> MARGIN rnd" and "MARGIN rnd \<le> 5005 / 100000"
  using rnd_bounds [OF assms, of "5 / 100"] by (simp_all add: MARGIN_def)

lemma fps_distance_60:
  assumes rnd: "\<forall>x. \<bar>rnd x - x\<bar> \<le> \<bar>x\<bar> / 1000" and "fps r = 60"
  shows "fps_distance rnd (float_of_uint32 rnd 45) r \<le> 16"
proof -
  let ?d = "float_of_uint32 rnd 60 - float_of_uint32 rnd 45"
  have "\<bar>?d\<bar> \<le> 15200 / 1000" using float_of_uint32_bounds [OF rnd] by linarith
  with rnd_abs_bounds(2) [OF rnd, of ?d] show ?thesis
    by (simp add: fps_distance_def assms)
qed

lemma fps_distance_90:
  assumes rnd: "\<forall>x. \<bar>rnd x - x\<bar> \<le> \<bar>x\<bar> / 1000" and "fps r = 90"
  shows "43 \<le> fps_distance rnd (float_of_uint32 rnd 45) r"
proof -
  let ?d = "float_of_uint32 rnd 90 - float_of_uint32 rnd 45"
  have "44 \<le> \<bar>?d\<bar>" using float_of_uint32_bounds [OF rnd] by linarith
  with rnd_abs_bounds(1) [OF rnd, of ?d] show ?thesis
    by (simp add: fps_distance_def assms)
qed

lemma fps_ratio_60:
  assumes rnd: "\<forall>x. \<bar>rnd x - x\<bar> \<le> \<bar>x\<bar> / 1000" and "fps r = 60"
  shows "13 / 10 \<le> fps_ratio rnd (float_of_uint32 rnd 45) r"
    and "fps_ratio rnd (float_of_uint32 rnd 45) r \<le> 14 / 10"
proof -
  let ?a = "float_of_uint32 rnd 60" and ?b = "float_of_uint32 rnd 45"
  note fb = float_of_uint32_bounds [OF rnd]
  have b: "0 < ?b" using fb by linarith
  have lo: "133 / 100 \<le> ?a / ?b" using fb b by (simp add: pos_le_divide_eq)
  have hi: "?a / ?b \<le> 134 / 100" using fb b by (simp add: pos_divide_le_eq)
  from lo have nn: "0 \<le> ?a / ?b" by linarith
  from rnd_bounds [OF rnd nn] lo hi
  show "13 / 10 \<le> fps_ratio rnd ?b r" and "fps_ratio rnd ?b r \<le> 14 / 10"
    by (simp_all add: fps_ratio_def assms)
qed

lemma fps_ratio_90:
  assumes rnd: "\<forall>x. \<bar>rnd x - x\<bar> \<le> \<bar>x\<bar> / 1000" and "fps r = 90"
  shows "199 / 100 \<le> fps_ratio rnd (float_of_uint32 rnd 45) r"
    and "fps_ratio rnd (float_of_uint32 rnd 45) r \<le> 201 / 100"
proof -
  let ?a = "float_of_uint32 rnd 90" and ?b = "float_of_uint32 rnd 45"
  note fb = float_of_uint32_bounds [OF rnd]
  have b: "0 < ?b" using fb by linarith
  have lo: "1995 / 1000 \<le> ?a / ?b" using fb b by (simp add: pos_le_divide_eq)
  have hi: "?a / ?b \<le> 2005 / 1000" using fb b by (simp add: pos_divide_le_eq)
  from lo have nn: "0 \<le> ?a / ?b" by linarith
  from rnd_bounds [OF rnd nn] lo hi
  show "199 / 100 \<le> fps_ratio rnd ?b r" and "fps_ratio rnd ?b r \<le> 201 / 100"
    by (simp_all add: fps_ratio_def assms)
qed

lemma ratio_error_60:
  assumes rnd: "\<forall>x. \<bar>rnd x - x\<bar> \<le> \<bar>x\<bar> / 1000" and r: "fps r = 60"
  shows "MARGIN rnd < ratio_error rnd (fps_ratio rnd (float_of_uint32 rnd 45) r)"
proof -
  let ?q = "fps_ratio rnd (float_of_uint32 rnd 45) r"
  note q = fps_ratio_60 [OF rnd r]
  have "std_round ?q = of_int 1" using q by (intro std_round_between) simp_all
  then have "29 / 100 \<le> \<bar>std_round ?q - ?q\<bar>" using q by linarith
  with rnd_abs_bounds(1) [OF rnd, of "std_round ?q - ?q"] MARGIN_bounds [OF rnd] show ?thesis
    by (simp add: ratio_error_def)
qed

lemma ratio_error_90:
  assumes rnd: "\<forall>x. \<bar>rnd x - x\<bar> \<le> \<bar>x\<bar> / 1000" and r: "fps r = 90"
  shows "ratio_error rnd (fps_ratio rnd (float_of_uint32 rnd 45) r) \<le> MARGIN rnd"
proof -
  let ?q = "fps_ratio rnd (float_of_uint32 rnd 45) r"
  note q = fps_ratio_90 [OF rnd r]
  have "std_round ?q = of_int 2" using q by (intro std_round_between) simp_all
  then have "\<bar>std_round ?q - ?q\<bar> \<le> 1 / 100" using q by linarith
  with rnd_abs_bounds(2) [OF rnd, of "std_round ?q - ?q"] MARGIN_bounds [OF rnd] show ?thesis
    by (simp add: ratio_error_def)
qed

lemma getRefreshRateMap_two:
  "mRefreshRateMap c = [DEFAULT \<mapsto> a, PERFORMANCE \<mapsto> b]
     \<Longrightarrow> getRefreshRateMap c = [(DEFAULT, a), (PERFORMANCE, b)]"
  by (simp add: getRefreshRateMap_def List.map_filter_simps)

text \<open>
  C4. Content at 45 frames per second, the rate map \<open>{DEFAULT \<mapsto> 60 fps, PERFORMANCE \<mapsto> 90 fps}\<close>,
  refresh-rate switching supported and no earlier rule applying (no forced HDR, display
  power normal, display-power timer expired, touch inactive, idle timer reset, content
  detection on): \<open>calculateRefreshRateType\<close> returns PERFORMANCE. The entry closest to 45 is
  the one with 60 fps (\<open>min_element\<close> stays at DEFAULT), the ratio 60/45 is further than the
  margin from an integer, and the scan finds 90/45 within the margin. This holds for every
  rounding whose relative error is at most 1/1000, single-precision rounding among them.
\<close>

theorem content_45_picks_performance:
  assumes rnd: "\<forall>x. \<bar>rnd x - x\<bar> \<le> \<bar>x\<bar> / 1000"
    and supported: "refreshRateSwitchingSupported (mRefreshRateConfigs s)"
    and rates: "mRefreshRateMap (mRefreshRateConfigs s) = [DEFAULT \<mapsto> d, PERFORMANCE \<mapsto> p]"
    and d: "fps d = 60" and p: "fps p = 90"
    and content: "contentRefreshRate (mFeatures s) = 45"
    and features: "\<not> (mForceHDRContentToDefaultRefreshRate s \<and> isHDRContent (mFeatures s))"
      "isDisplayPowerStateNormal (mFeatures s)" "displayPowerTimer (mFeatures s) = Expired"
      "touch (mFeatures s) = Inactive" "idleTimer (mFeatures s) = Reset"
      "contentDetection (mFeatures s) = On"
  shows "calculateRefreshRateType rnd s = Some PERFORMANCE
    \<and> min_element (\<lambda>lhs rhs. fps_distance rnd (float_of_uint32 rnd 45) (snd lhs)
                               < fps_distance rnd (float_of_uint32 rnd 45) (snd rhs))
        (getRefreshRateMap (mRefreshRateConfigs s)) = [(DEFAULT, d), (PERFORMANCE, p)]
    \<and> ratio_exceeds_margin rnd (float_of_uint32 rnd 45) d
    \<and> ratio_within_margin rnd (float_of_uint32 rnd 45) p"
proof -
  let ?rate = "float_of_uint32 rnd 45"
  have rate: "?rate \<noteq> 0" using float_of_uint32_bounds(1) [OF rnd] by linarith
  have closest: "\<not> fps_distance rnd ?rate p < fps_distance rnd ?rate d"
    using fps_distance_60 [OF rnd d] fps_distance_90 [OF rnd p] by linarith
  have off: "ratio_exceeds_margin rnd ?rate d" and off': "\<not> ratio_within_margin rnd ?rate d"
    using ratio_error_60 [OF rnd d] rate
    by (simp_all add: ratio_exceeds_margin_def ratio_within_margin_def)
  have ok: "ratio_within_margin rnd ?rate p"
    using ratio_error_90 [OF rnd p] rate by (simp add: ratio_within_margin_def)
  have iter: "min_element (\<lambda>lhs rhs. fps_distance rnd ?rate (snd lhs) < fps_distance rnd ?rate (snd rhs))
        (getRefreshRateMap (mRefreshRateConfigs s)) = [(DEFAULT, d), (PERFORMANCE, p)]"
    using closest by (simp add: getRefreshRateMap_two [OF rates] min_element_def)
  have "calculateRefreshRateType rnd s = Some PERFORMANCE"
    using supported features off off' ok
    by (simp add: calculateRefreshRateType_def content iter getRefreshRateFromType_def rates)
  with iter off ok show ?thesis by simp
qed

theorem content_45_picks_performance_witness:
  "(\<forall>x::rat. \<bar>x - x\<bar> \<le> \<bar>x\<bar> / 1000)
   \<and> refreshRateSwitchingSupported (mRefreshRateConfigs exampleScheduler)
   \<and> mRefreshRateMap (mRefreshRateConfigs exampleScheduler)
       = [DEFAULT \<mapsto> exampleRate60, PERFORMANCE \<mapsto> exampleRate90]
   \<and> fps exampleRate60 = 60 \<and> fps exampleRate90 = 90
   \<and> contentRefreshRate (mFeatures exampleScheduler) = 45
   \<and> calculateRefreshRateType (\<lambda>x. x) exampleScheduler = Some PERFORMANCE"
  using content_45_picks_performance [of "\<lambda>x. x" exampleScheduler exampleRate60 exampleRate90]
  by (simp add: exampleScheduler_def exampleFeatures_def exampleConfigs_def exampleRate60_def
        exampleRate90_def refreshRateSwitchingSupported_def)

section \<open>Timers, resync, hardware vsync and connections\<close>

subsection \<open>Timer transitions\<close>

lemma timerCallback_unfold:
  "timerCallback rnd tm st s =
     (case tm of
        IdleTimer \<Rightarrow> handleTimerStateChanged rnd idleTimer (\<lambda>v f. f\<lparr>idleTimer := v\<rparr>) st False s
      | TouchTimer \<Rightarrow> handleTimerStateChanged rnd touch (\<lambda>v f. f\<lparr>touch := v\<rparr>)
                        (if st = Reset then Active else Inactive) True s
      | DisplayPowerTimer \<Rightarrow>
          handleTimerStateChanged rnd displayPowerTimer (\<lambda>v f. f\<lparr>displayPowerTimer := v\<rparr>) st True s)"
  by (cases tm)
    (simp_all add: idleTimerCallback_def touchTimerCallback_def displayPowerTimerCallback_def)

text \<open>
  C5. A timer transition (idle, touch or display power) that stores the state the feature
  already holds changes nothing. One that stores a new state recomputes the refresh-rate
  type; if that equals the stored type, no callback is invoked and the stored type stays;
  otherwise the new type is stored and the registered callback is invoked with it, with the
  event Changed exactly when the timer is the touch or the display-power timer and content
  detection is on, and with the event None for the idle timer.
\<close>

theorem timer_transition_callback:
  "(timerStateIs tm st (mFeatures s) \<longrightarrow> timerCallback rnd tm st s = Some s)
   \<and> (\<not> timerStateIs tm st (mFeatures s)
        \<and> calculateRefreshRateType rnd (s\<lparr>mFeatures := withTimerState tm st (mFeatures s)\<rparr>) = Some t
      \<longrightarrow> (\<exists>s'. timerCallback rnd tm st s = Some s'
             \<and> (if t = refreshRateType (mFeatures s)
                then calls s' = calls s \<and> refreshRateType (mFeatures s') = refreshRateType (mFeatures s)
                else refreshRateType (mFeatures s') = t
                   \<and> (mChangeRefreshRateCallback s \<longrightarrow>
                        calls s' = calls s @
                          [ChangeRefreshRateCallback t
                             (if tm \<noteq> IdleTimer \<and> contentDetection (mFeatures s) = On
                              then Changed else NoneEvent)]))))"
proof (cases tm)
  case IdleTimer
  show ?thesis
    unfolding timerCallback_unfold IdleTimer
    by (auto simp: handleTimerStateChanged_def Let_def changeRefreshRate_def)
next
  case TouchTimer
  show ?thesis
    unfolding timerCallback_unfold TouchTimer
    by (auto simp: handleTimerStateChanged_def Let_def changeRefreshRate_def)
next
  case DisplayPowerTimer
  show ?thesis
    unfolding timerCallback_unfold DisplayPowerTimer
    by (auto simp: handleTimerStateChanged_def Let_def changeRefreshRate_def)
qed

theorem timer_transition_callback_witness:
  "\<not> timerStateIs TouchTimer Reset (mFeatures exampleScheduler)
   \<and> calculateRefreshRateType (\<lambda>x. x)
        (exampleScheduler\<lparr>mFeatures := withTimerState TouchTimer Reset (mFeatures exampleScheduler)\<rparr>)
      = Some PERFORMANCE
   \<and> PERFORMANCE \<noteq> refreshRateType (mFeatures exampleScheduler)
   \<and> mChangeRefreshRateCallback exampleScheduler
   \<and> (\<exists>s'. timerCallback (\<lambda>x. x) TouchTimer Reset exampleScheduler = Some s'
          \<and> refreshRateType (mFeatures s') = PERFORMANCE
          \<and> calls s' = [ChangeRefreshRateCallback PERFORMANCE Changed])"
proof -
  have c: "calculateRefreshRateType (\<lambda>x. x)
        (exampleScheduler\<lparr>mFeatures := withTimerState TouchTimer Reset (mFeatures exampleScheduler)\<rparr>)
      = Some PERFORMANCE"
    by (simp add: calculateRefreshRateType_def exampleScheduler_def exampleFeatures_def
          exampleConfigs_def refreshRateSwitchingSupported_def)
  have n: "\<not> timerStateIs TouchTimer Reset (mFeatures exampleScheduler)"
    by (simp add: exampleScheduler_def exampleFeatures_def)
  have e: "refreshRateType (mFeatures exampleScheduler) = DEFAULT"
    "mChangeRefreshRateCallback exampleScheduler" "calls exampleScheduler = []"
    "contentDetection (mFeatures exampleScheduler) = On"
    by (simp_all add: exampleScheduler_def exampleFeatures_def)
  from timer_transition_callback [of TouchTimer Reset exampleScheduler "\<lambda>x. x" PERFORMANCE] c n e
  show ?thesis by simp
qed

subsection \<open>Resync\<close>

lemma resyncCount_setVsyncPeriod: "resyncCount (setVsyncPeriod period s) = resyncCount s"
  by (simp add: setVsyncPeriod_def Let_def resyncCount_def)

lemma resyncCount_resyncToHardwareVsync:
  "resyncCount (resyncToHardwareVsync makeAvailable period s) = Suc (resyncCount s)"
  by (simp add: resyncToHardwareVsync_def Let_def resyncCount_setVsyncPeriod)
    (simp add: resyncCount_def)

lemma mLastResyncTime_setVsyncPeriod: "mLastResyncTime (setVsyncPeriod period s) = mLastResyncTime s"
  by (simp add: setVsyncPeriod_def Let_def)

lemma mLastResyncTime_resyncToHardwareVsync:
  "mLastResyncTime (resyncToHardwareVsync makeAvailable period s) = mLastResyncTime s"
  by (simp add: resyncToHardwareVsync_def Let_def mLastResyncTime_setVsyncPeriod)

lemma mLastResyncTime_resync: "mLastResyncTime (resync now s) = now"
  by (simp add: resync_def Let_def mLastResyncTime_resyncToHardwareVsync)

text \<open>
  C6. \<open>resync\<close> is debounced on 750 ms since the previous call. A call at most 750 ms after
  the previous one only records its time; a call more than 750 ms after it records its time
  and invokes \<open>resyncToHardwareVsync(false, currentVsyncPeriod)\<close>. So of two calls at most
  750 ms apart, the first coming more than 750 ms after the call before it, exactly one
  invokes the resync.
\<close>

theorem resync_debounce:
  "(now - mLastResyncTime s \<le> 750000000 \<longrightarrow>
      resync now s = s\<lparr>mLastResyncTime := now\<rparr> \<and> resyncCount (resync now s) = resyncCount s)
   \<and> (750000000 < now - mLastResyncTime s \<longrightarrow>
      resync now s = resyncToHardwareVsync False
                       (vsyncPeriod (snd (getCurrentRefreshRate (mRefreshRateConfigs s))))
                       (s\<lparr>mLastResyncTime := now\<rparr>)
      \<and> resyncCount (resync now s) = resyncCount s + 1)
   \<and> mLastResyncTime (resync now s) = now
   \<and> (750000000 < t1 - mLastResyncTime s \<and> t2 - t1 \<le> 750000000 \<longrightarrow>
      resyncCount (resync t2 (resync t1 s)) = resyncCount s + 1)"
proof -
  have quiet: "resync now' s' = s'\<lparr>mLastResyncTime := now'\<rparr> \<and> resyncCount (resync now' s') = resyncCount s'"
    if "now' - mLastResyncTime s' \<le> 750000000" for now' s'
    using that by (simp add: resync_def kIgnoreDelay_def resyncCount_def)
  have loud: "resync now' s' = resyncToHardwareVsync False
                       (vsyncPeriod (snd (getCurrentRefreshRate (mRefreshRateConfigs s'))))
                       (s'\<lparr>mLastResyncTime := now'\<rparr>)
      \<and> resyncCount (resync now' s') = resyncCount s' + 1"
    if "750000000 < now' - mLastResyncTime s'" for now' s'
    using that by (simp add: resync_def kIgnoreDelay_def resyncCount_resyncToHardwareVsync)
      (simp add: resyncCount_def)
  have twice: "resyncCount (resync t2 (resync t1 s)) = resyncCount s + 1"
    if "750000000 < t1 - mLastResyncTime s" and "t2 - t1 \<le> 750000000"
  proof -
    have "t2 - mLastResyncTime (resync t1 s) \<le> 750000000"
      using that(2) by (simp add: mLastResyncTime_resync)
    from quiet [OF this] have "resyncCount (resync t2 (resync t1 s)) = resyncCount (resync t1 s)" ..
    moreover from loud [OF that(1)] have "resyncCount (resync t1 s) = resyncCount s + 1" ..
    ultimately show ?thesis by (simp only:)
  qed
  show ?thesis using quiet [of now s] loud [of now s] twice mLastResyncTime_resync [of now s]
    by blast
qed

theorem resync_debounce_witness:
  "750000000 < 1000000000 - mLastResyncTime exampleScheduler
   \<and> (1500000000::int) - 1000000000 \<le> 750000000
   \<and> resyncCount exampleScheduler = 0
   \<and> resyncCount (resync 1000000000 exampleScheduler) = 1
   \<and> resyncCount (resync 1500000000 (resync 1000000000 exampleScheduler)) = 1"
proof -
  have h: "750000000 < 1000000000 - mLastResyncTime exampleScheduler"
    and z: "resyncCount exampleScheduler = 0"
    by (simp_all add: exampleScheduler_def resyncCount_def)
  have le: "(1500000000::int) - 1000000000 \<le> 750000000" by simp
  from resync_debounce [of 1000000000 exampleScheduler 1000000000 1500000000] h le
  have "resyncCount (resync 1000000000 exampleScheduler) = resyncCount exampleScheduler + 1"
    and "resyncCount (resync 1500000000 (resync 1000000000 exampleScheduler))
           = resyncCount exampleScheduler + 1"
    by blast+
  with h z show ?thesis by simp
qed

subsection \<open>Hardware vsync\<close>

lemma invariant_step:
  "(mPrimaryHWVsyncEnabled s \<longrightarrow> mHWVsyncAvailable s)
     \<Longrightarrow> mPrimaryHWVsyncEnabled (applyHWVsyncOp op s) \<longrightarrow> mHWVsyncAvailable (applyHWVsyncOp op s)"
  by (cases op)
    (auto simp: enableHardwareVsync_def disableHardwareVsync_def resyncToHardwareVsync_def
       setVsyncPeriod_def resync_def addResyncSample_def addPresentFence_def Let_def
       split: if_splits)

lemma invariant_run:
  "(mPrimaryHWVsyncEnabled s \<longrightarrow> mHWVsyncAvailable s)
     \<Longrightarrow> mPrimaryHWVsyncEnabled (runHWVsyncOps ops s) \<longrightarrow> mHWVsyncAvailable (runHWVsyncOps ops s)"
proof (induction ops arbitrary: s)
  case Nil
  then show ?case by simp
next
  case (Cons op ops)
  from Cons.IH [OF invariant_step [OF Cons.prems]] show ?case by simp
qed

lemma unavailable_step:
  "\<not> mHWVsyncAvailable s \<Longrightarrow> \<not> mPrimaryHWVsyncEnabled s \<Longrightarrow> \<not> makesAvailable op
     \<Longrightarrow> \<not> mHWVsyncAvailable (applyHWVsyncOp op s) \<and> \<not> mPrimaryHWVsyncEnabled (applyHWVsyncOp op s)"
  by (cases op)
    (auto simp: enableHardwareVsync_def disableHardwareVsync_def resyncToHardwareVsync_def
       setVsyncPeriod_def resync_def addResyncSample_def addPresentFence_def Let_def
       split: if_splits)

lemma unavailable_run:
  "\<not> mHWVsyncAvailable s \<Longrightarrow> \<not> mPrimaryHWVsyncEnabled s \<Longrightarrow> \<forall>op \<in> set ops. \<not> makesAvailable op
     \<Longrightarrow> \<not> mHWVsyncAvailable (runHWVsyncOps ops s) \<and> \<not> mPrimaryHWVsyncEnabled (runHWVsyncOps ops s)"
proof (induction ops arbitrary: s)
  case Nil
  then show ?case by simp
next
  case (Cons op ops)
  from Cons.prems have "\<not> makesAvailable op" and rest: "\<forall>op \<in> set ops. \<not> makesAvailable op"
    by simp_all
  from unavailable_step [OF Cons.prems(1,2) this(1)]
  have "\<not> mHWVsyncAvailable (applyHWVsyncOp op s)" "\<not> mPrimaryHWVsyncEnabled (applyHWVsyncOp op s)"
    by simp_all
  from Cons.IH [OF this rest] show ?case by simp
qed

lemma disableHardwareVsync_True:
  "\<not> mHWVsyncAvailable (disableHardwareVsync True s) \<and> \<not> mPrimaryHWVsyncEnabled (disableHardwareVsync True s)"
  by (simp add: disableHardwareVsync_def Let_def)

text \<open>
  C9, as amended. Every run of \<open>enableHardwareVsync\<close>, \<open>disableHardwareVsync\<close>,
  \<open>resyncToHardwareVsync\<close>, \<open>resync\<close>, \<open>addResyncSample\<close> and \<open>addPresentFence\<close> keeps
  ``hardware vsync enabled implies hardware vsync available''. After
  \<open>disableHardwareVsync(true)\<close>, a run that does not call \<open>resyncToHardwareVsync\<close> with
  \<open>makeAvailable = true\<close>, whatever the period, leaves hardware vsync disabled. That call
  makes hardware vsync available with any period; it enables hardware vsync when the period
  is positive and leaves it enabled or disabled as it was otherwise.
\<close>

theorem hw_vsync_enabled_implies_available:
  "((mPrimaryHWVsyncEnabled s \<longrightarrow> mHWVsyncAvailable s) \<longrightarrow>
      (mPrimaryHWVsyncEnabled (runHWVsyncOps ops s) \<longrightarrow> mHWVsyncAvailable (runHWVsyncOps ops s)))
   \<and> ((\<forall>op \<in> set ops. \<not> makesAvailable op) \<longrightarrow>
      \<not> mPrimaryHWVsyncEnabled (runHWVsyncOps ops (disableHardwareVsync True s)))
   \<and> mHWVsyncAvailable (resyncToHardwareVsync True period s)
   \<and> (0 < period \<longrightarrow> mPrimaryHWVsyncEnabled (resyncToHardwareVsync True period s))
   \<and> (period \<le> 0 \<longrightarrow>
        mPrimaryHWVsyncEnabled (resyncToHardwareVsync True period s) = mPrimaryHWVsyncEnabled s)"
proof -
  have "mHWVsyncAvailable (resyncToHardwareVsync True period s)"
    and "0 < period \<longrightarrow> mPrimaryHWVsyncEnabled (resyncToHardwareVsync True period s)"
    and "period \<le> 0 \<longrightarrow>
        mPrimaryHWVsyncEnabled (resyncToHardwareVsync True period s) = mPrimaryHWVsyncEnabled s"
    by (simp_all add: resyncToHardwareVsync_def setVsyncPeriod_def Let_def)
  with invariant_run [of s ops]
    unavailable_run [of "disableHardwareVsync True s" ops] disableHardwareVsync_True [of s]
  show ?thesis by blast
qed

theorem hw_vsync_enabled_implies_available_witness:
  "\<not> mPrimaryHWVsyncEnabled exampleScheduler
   \<and> \<not> list_ex makesAvailable
         [ResyncToHardwareVsync False 16666667, EnableHardwareVsync, Resync 1000000000,
          AddPresentFence True, AddResyncSample 5 True False]
   \<and> \<not> mPrimaryHWVsyncEnabled
        (runHWVsyncOps [ResyncToHardwareVsync False 16666667, EnableHardwareVsync, Resync 1000000000,
                        AddPresentFence True, AddResyncSample 5 True False]
           (disableHardwareVsync True exampleScheduler))"
  using hw_vsync_enabled_implies_available
    [of exampleScheduler "[ResyncToHardwareVsync False 16666667, EnableHardwareVsync,
         Resync 1000000000, AddPresentFence True, AddResyncSample 5 True False]"]
  by (simp add: exampleScheduler_def)

text \<open>
  C9 as stated asks for a call with \<open>makeAvailable = true\<close> and a positive period before
  hardware vsync can be enabled again. \<open>resyncToHardwareVsync(true, 0)\<close> makes hardware
  vsync available before it looks at the period, and \<open>enableHardwareVsync\<close> then enables it.
\<close>

theorem hw_vsync_reenabled_without_positive_period:
  "\<not> list_ex makesAvailableWithPositivePeriod [ResyncToHardwareVsync True 0, EnableHardwareVsync]
   \<and> \<not> mPrimaryHWVsyncEnabled (disableHardwareVsync True exampleScheduler)
   \<and> mPrimaryHWVsyncEnabled
       (runHWVsyncOps [ResyncToHardwareVsync True 0, EnableHardwareVsync]
          (disableHardwareVsync True exampleScheduler))"
  by (simp add: exampleScheduler_def disableHardwareVsync_def resyncToHardwareVsync_def
        enableHardwareVsync_def Let_def)

subsection \<open>Connection handles\<close>

text \<open>
  C8, as amended. With a handle that the connection map does not hold, each operation
  returns its default (no pointer, or nothing) and leaves the scheduler, the connection map
  included, as it was. With a handle the map holds, \<open>createDisplayEventConnection\<close>,
  \<open>onHotplugReceived\<close>, \<open>onScreenAcquired\<close>, \<open>onScreenReleased\<close>, \<open>onConfigChanged\<close>, \<open>dump\<close>
  and \<open>setPhaseOffset\<close> call the event thread of that handle, while \<open>getEventThread\<close> and
  \<open>getEventConnection\<close> return the thread and the connection stored for it and call nothing;
  the connection map is unchanged in every case.
\<close>

theorem connection_handle_operations:
  "(mConnections s handle = None \<longrightarrow>
        createDisplayEventConnection handle configChanged created s = (None, s)
      \<and> getEventThread handle s = (None, s)
      \<and> getEventConnection handle s = (None, s)
      \<and> onHotplugReceived handle displayId isConnected s = s
      \<and> onScreenAcquired handle s = s
      \<and> onScreenReleased handle s = s
      \<and> onConfigChanged handle displayId config s = s
      \<and> dump handle s = s
      \<and> setPhaseOffset handle phaseOffset s = s)
   \<and> (mConnections s handle = Some c \<longrightarrow>
        createDisplayEventConnection handle configChanged created s
          = (Some created,
             s\<lparr>calls := calls s @ [EventThreadCalled (thread c) (CreateEventConnection configChanged)]\<rparr>)
      \<and> getEventThread handle s = (Some (thread c), s)
      \<and> getEventConnection handle s = (Some (connection c), s)
      \<and> onHotplugReceived handle displayId isConnected s
          = s\<lparr>calls := calls s @ [EventThreadCalled (thread c) (OnHotplugReceived displayId isConnected)]\<rparr>
      \<and> onScreenAcquired handle s
          = s\<lparr>calls := calls s @ [EventThreadCalled (thread c) OnScreenAcquired]\<rparr>
      \<and> onScreenReleased handle s
          = s\<lparr>calls := calls s @ [EventThreadCalled (thread c) OnScreenReleased]\<rparr>
      \<and> onConfigChanged handle displayId config s
          = s\<lparr>calls := calls s @ [EventThreadCalled (thread c) (OnConfigChanged displayId config)]\<rparr>
      \<and> dump handle s = s\<lparr>calls := calls s @ [EventThreadCalled (thread c) Dump]\<rparr>
      \<and> setPhaseOffset handle phaseOffset s
          = s\<lparr>calls := calls s @ [EventThreadCalled (thread c) (SetPhaseOffset phaseOffset)]\<rparr>)"
  by (simp add: createDisplayEventConnection_def createConnectionInternal_def getEventThread_def
        getEventConnection_def forwardToEventThread_def onHotplugReceived_def onScreenAcquired_def
        onScreenReleased_def onConfigChanged_def dump_def setPhaseOffset_def)

theorem connection_handle_operations_witness:
  "mConnections exampleScheduler 0 = Some \<lparr>connection = 10, thread = 20\<rparr>
   \<and> mConnections exampleScheduler 5 = None
   \<and> getEventThread 0 exampleScheduler = (Some 20, exampleScheduler)
   \<and> calls (setPhaseOffset 0 1000 exampleScheduler) = [EventThreadCalled 20 (SetPhaseOffset 1000)]
   \<and> mConnections (setPhaseOffset 0 1000 exampleScheduler) = mConnections exampleScheduler
   \<and> setPhaseOffset 5 1000 exampleScheduler = exampleScheduler
   \<and> getEventThread 5 exampleScheduler = (None, exampleScheduler)"
proof -
  have p: "mConnections exampleScheduler 0 = Some \<lparr>connection = 10, thread = 20\<rparr>"
    and a: "mConnections exampleScheduler 5 = None"
    and c: "calls exampleScheduler = []"
    by (simp_all add: exampleScheduler_def)
  from connection_handle_operations
         [of exampleScheduler 0 0 0 0 False 0 1000 "\<lparr>connection = 10, thread = 20\<rparr>"] p
  have "getEventThread 0 exampleScheduler = (Some 20, exampleScheduler)"
    and "setPhaseOffset 0 1000 exampleScheduler
           = exampleScheduler\<lparr>calls := calls exampleScheduler @ [EventThreadCalled 20 (SetPhaseOffset 1000)]\<rparr>"
    by simp_all
  moreover
  from connection_handle_operations
         [of exampleScheduler 5 0 0 0 False 0 1000 "\<lparr>connection = 10, thread = 20\<rparr>"] a
  have "setPhaseOffset 5 1000 exampleScheduler = exampleScheduler"
    and "getEventThread 5 exampleScheduler = (None, exampleScheduler)"
    by simp_all
  ultimately show ?thesis using p a c by simp
qed

text \<open>
  C8 as stated has every operation forwarded to the event thread of a handle the map holds.
  \<open>getEventConnection\<close> on such a handle returns the stored connection and calls no event
  thread.
\<close>

theorem getEventConnection_calls_no_thread:
  "mConnections exampleScheduler 0 = Some \<lparr>connection = 10, thread = 20\<rparr>
   \<and> getEventConnection 0 exampleScheduler = (Some 10, exampleScheduler)
   \<and> calls (snd (getEventConnection 0 exampleScheduler)) = []"
  by (simp add: getEventConnection_def exampleScheduler_def)

section \<open>The display\<close>

subsection \<open>Choosing the composition strategy\<close>

lemma layers_applyDisplayRequests:
  "mOutputLayersOrderedByZ (applyDisplayRequests dr d) = mOutputLayersOrderedByZ d"
  by (simp add: applyDisplayRequests_def)

lemma layers_applyLayerRequestsToLayers:
  "mOutputLayersOrderedByZ d = mOutputLayersOrderedByZ d'
     \<Longrightarrow> mOutputLayersOrderedByZ (applyLayerRequestsToLayers ops lr d)
         = mOutputLayersOrderedByZ (applyLayerRequestsToLayers ops lr d')"
  by (simp add: applyLayerRequestsToLayers_def)

lemma anyLayersRequireClientComposition_iff:
  "anyLayersRequireClientComposition ops d
     \<longleftrightarrow> (\<exists>l \<in> set (mOutputLayersOrderedByZ d). requiresClientComposition ops l)"
  by (simp add: anyLayersRequireClientComposition_def list_ex_iff)

lemma allLayersRequireClientComposition_iff:
  "allLayersRequireClientComposition ops d
     \<longleftrightarrow> (\<forall>l \<in> set (mOutputLayersOrderedByZ d). requiresClientComposition ops l)"
  by (simp add: allLayersRequireClientComposition_def list_all_iff)

text \<open>
  C1. On a display with a hardware-composer id whose query for the device's composition
  changes succeeds, \<open>chooseCompositionStrategy\<close> leaves the layers as they are after the
  changed types and the layer requests of the answer have been applied (unchanged when the
  answer holds no changes), and sets \<open>usesClientComposition\<close> to ``some layer of the ordered
  list requires client composition'' and \<open>usesDeviceComposition\<close> to ``not every layer of
  the ordered list requires client composition'', read off those final layers.
\<close>

theorem chooseCompositionStrategy_flags:
  assumes bound: "mId d = Some i"
    and succeeds: "getDeviceCompositionChanges env i (anyLayersRequireClientComposition ops d)
                     = (NO_ERROR, changes)"
  shows "\<exists>d'. chooseCompositionStrategy ops env d = Inr d'
    \<and> mOutputLayersOrderedByZ d'
        = (case changes of
             None \<Rightarrow> mOutputLayersOrderedByZ d
           | Some c \<Rightarrow>
               mOutputLayersOrderedByZ
                 (applyLayerRequestsToLayers ops (layerRequests c)
                    (applyChangedTypesToLayers ops (changedTypes c) d)))
    \<and> mOutputLayersOrderedByZ d'
        = (case changes of
             None \<Rightarrow> mOutputLayersOrderedByZ d
           | Some c \<Rightarrow>
               map (\<lambda>layer.
                      let layer1 = (case getHwcLayer ops layer of
                                      None \<Rightarrow> layer
                                    | Some h \<Rightarrow>
                                        (case map_of (changedTypes c) h of
                                           None \<Rightarrow> layer
                                         | Some t \<Rightarrow> applyDeviceCompositionTypeChange ops t layer));
                          layer2 = prepareForDeviceLayerRequests ops layer1
                      in case getHwcLayer ops layer2 of
                           None \<Rightarrow> layer2
                         | Some h \<Rightarrow>
                             (case map_of (layerRequests c) h of
                                None \<Rightarrow> layer2
                              | Some r \<Rightarrow> applyDeviceLayerRequest ops r layer2))
                 (mOutputLayersOrderedByZ d))
    \<and> usesClientComposition (mState d')
        = (\<exists>l \<in> set (mOutputLayersOrderedByZ d'). requiresClientComposition ops l)
    \<and> usesDeviceComposition (mState d')
        = (\<not> (\<forall>l \<in> set (mOutputLayersOrderedByZ d'). requiresClientComposition ops l))"
proof -
  let ?d0 = "d\<lparr>mState := Output_chooseCompositionStrategy (mState d)\<rparr>"
  let ?needs = "anyLayersRequireClientComposition ops d"
  let ?d1 = "?d0\<lparr>hwcCalls := hwcCalls ?d0 @ [GetDeviceCompositionChanges i ?needs]\<rparr>"
  let ?d2 = "case changes of
               None \<Rightarrow> ?d1
             | Some c \<Rightarrow>
                 applyLayerRequestsToLayers ops (layerRequests c)
                   (applyDisplayRequests (displayRequests c)
                      (applyChangedTypesToLayers ops (changedTypes c) ?d1))"
  let ?d' = "?d2\<lparr>mState := (mState ?d2)
                \<lparr>usesClientComposition := anyLayersRequireClientComposition ops ?d2,
                 usesDeviceComposition := \<not> allLayersRequireClientComposition ops ?d2\<rparr>\<rparr>"
  have needs: "anyLayersRequireClientComposition ops ?d0 = ?needs"
    by (simp add: anyLayersRequireClientComposition_def)
  have run: "chooseCompositionStrategy ops env d = Inr ?d'"
    using bound succeeds
    by (cases changes)
      (simp_all add: chooseCompositionStrategy_def Let_def dereference_def needs)
  have layers: "mOutputLayersOrderedByZ ?d2
        = (case changes of
             None \<Rightarrow> mOutputLayersOrderedByZ d
           | Some c \<Rightarrow>
               mOutputLayersOrderedByZ
                 (applyLayerRequestsToLayers ops (layerRequests c)
                    (applyChangedTypesToLayers ops (changedTypes c) d)))"
  proof (cases changes)
    case None
    then show ?thesis by simp
  next
    case (Some c)
    have "mOutputLayersOrderedByZ (applyDisplayRequests (displayRequests c)
              (applyChangedTypesToLayers ops (changedTypes c) ?d1))
          = mOutputLayersOrderedByZ (applyChangedTypesToLayers ops (changedTypes c) d)"
      by (simp add: layers_applyDisplayRequests applyChangedTypesToLayers_def)
    from layers_applyLayerRequestsToLayers [OF this] Some show ?thesis by simp
  qed
  have "mOutputLayersOrderedByZ ?d' = mOutputLayersOrderedByZ ?d2" by simp
  moreover have "usesClientComposition (mState ?d') = anyLayersRequireClientComposition ops ?d2"
    and "usesDeviceComposition (mState ?d') = (\<not> allLayersRequireClientComposition ops ?d2)"
    by simp_all
  moreover have "(case changes of
             None \<Rightarrow> mOutputLayersOrderedByZ d
           | Some c \<Rightarrow>
               mOutputLayersOrderedByZ
                 (applyLayerRequestsToLayers ops (layerRequests c)
                    (applyChangedTypesToLayers ops (changedTypes c) d)))
        = (case changes of
             None \<Rightarrow> mOutputLayersOrderedByZ d
           | Some c \<Rightarrow>
               map (\<lambda>layer.
                      let layer1 = (case getHwcLayer ops layer of
                                      None \<Rightarrow> layer
                                    | Some h \<Rightarrow>
                                        (case map_of (changedTypes c) h of
                                           None \<Rightarrow> layer
                                         | Some t \<Rightarrow> applyDeviceCompositionTypeChange ops t layer));
                          layer2 = prepareForDeviceLayerRequests ops layer1
                      in case getHwcLayer ops layer2 of
                           None \<Rightarrow> layer2
                         | Some h \<Rightarrow>
                             (case map_of (layerRequests c) h of
                                None \<Rightarrow> layer2
                              | Some r \<Rightarrow> applyDeviceLayerRequest ops r layer2))
                 (mOutputLayersOrderedByZ d))"
  proof (cases changes)
    case None
    then show ?thesis by simp
  next
    case (Some c)
    show ?thesis
    proof (cases "changedTypes c = []")
      case True
      have unchanged: "(case getHwcLayer ops layer of
                          None \<Rightarrow> layer
                        | Some h \<Rightarrow>
                            (case map_of (changedTypes c) h of
                               None \<Rightarrow> layer
                             | Some t \<Rightarrow> applyDeviceCompositionTypeChange ops t layer)) = layer"
        for layer :: 'a
        by (simp add: True split: option.split)
      show ?thesis
        unfolding Some
        by (simp add: applyLayerRequestsToLayers_def applyChangedTypesToLayers_def Let_def
              True unchanged)
    next
      case False
      then show ?thesis
        unfolding Some
        by (simp add: applyLayerRequestsToLayers_def applyChangedTypesToLayers_def Let_def comp_def)
    qed
  qed
  ultimately show ?thesis
    using run layers
    by (intro exI [of _ ?d'])
      (simp only: anyLayersRequireClientComposition_iff allLayersRequireClientComposition_iff simp_thms)
qed

theorem chooseCompositionStrategy_flags_witness:
  "mId exampleDisplay = Some 7
   \<and> getDeviceCompositionChanges exampleCollaborators 7
         (anyLayersRequireClientComposition exampleLayerOps exampleDisplay)
       = (NO_ERROR, Some \<lparr>changedTypes = [(1, 1)], displayRequests = 1, layerRequests = [(2, 1)]\<rparr>)
   \<and> (\<exists>d'. chooseCompositionStrategy exampleLayerOps exampleCollaborators exampleDisplay = Inr d'
          \<and> mOutputLayersOrderedByZ d'
              = [\<lparr>hwcLayer = Some 1, compositionType = 1, clearClientTarget = False\<rparr>,
                 \<lparr>hwcLayer = Some 2, compositionType = 2, clearClientTarget = True\<rparr>]
          \<and> usesClientComposition (mState d') \<and> usesDeviceComposition (mState d'))"
proof -
  have bound: "mId exampleDisplay = Some 7"
    by (simp add: exampleDisplay_def)
  have succeeds: "getDeviceCompositionChanges exampleCollaborators 7
         (anyLayersRequireClientComposition exampleLayerOps exampleDisplay)
       = (NO_ERROR, Some \<lparr>changedTypes = [(1, 1)], displayRequests = 1, layerRequests = [(2, 1)]\<rparr>)"
    by (simp add: exampleCollaborators_def)
  have layers: "mOutputLayersOrderedByZ
          (applyLayerRequestsToLayers exampleLayerOps [(2, 1)]
             (applyChangedTypesToLayers exampleLayerOps [(1, 1)] exampleDisplay))
       = [\<lparr>hwcLayer = Some 1, compositionType = 1, clearClientTarget = False\<rparr>,
          \<lparr>hwcLayer = Some 2, compositionType = 2, clearClientTarget = True\<rparr>]"
    by (simp add: applyLayerRequestsToLayers_def applyChangedTypesToLayers_def exampleLayerOps_def
          exampleDisplay_def)
  from chooseCompositionStrategy_flags [OF bound succeeds] layers bound succeeds
  show ?thesis by (auto simp: exampleLayerOps_def)
qed

text \<open>
  C2. If the display has no hardware-composer id, or the hardware composer's query for the
  composition changes returns an error, \<open>chooseCompositionStrategy\<close> leaves the defaults
  \<open>usesClientComposition = true\<close> and \<open>usesDeviceComposition = false\<close> and touches no
  layer: no changed type, display request or layer request is applied.
\<close>

theorem chooseCompositionStrategy_defaults:
  assumes "mId d = None
     \<or> (\<exists>i. mId d = Some i
           \<and> fst (getDeviceCompositionChanges env i (anyLayersRequireClientComposition ops d))
               \<noteq> NO_ERROR)"
  shows "\<exists>d'. chooseCompositionStrategy ops env d = Inr d'
    \<and> usesClientComposition (mState d') \<and> \<not> usesDeviceComposition (mState d')
    \<and> mOutputLayersOrderedByZ d' = mOutputLayersOrderedByZ d
    \<and> flipClientTarget (mState d') = flipClientTarget (mState d)"
proof -
  have needs: "anyLayersRequireClientComposition ops (d\<lparr>mState := st\<rparr>)
               = anyLayersRequireClientComposition ops d" for st
    by (simp add: anyLayersRequireClientComposition_def)
  from assms show ?thesis
  proof
    assume "mId d = None"
    then show ?thesis
      by (simp add: chooseCompositionStrategy_def Let_def Output_chooseCompositionStrategy_def)
  next
    assume "\<exists>i. mId d = Some i
           \<and> fst (getDeviceCompositionChanges env i (anyLayersRequireClientComposition ops d))
               \<noteq> NO_ERROR"
    then obtain i where "mId d = Some i"
      and "fst (getDeviceCompositionChanges env i (anyLayersRequireClientComposition ops d)) \<noteq> NO_ERROR"
      by blast
    then show ?thesis
      by (simp add: chooseCompositionStrategy_def Let_def dereference_def needs
            Output_chooseCompositionStrategy_def split_beta)
  qed
qed

theorem chooseCompositionStrategy_defaults_witness:
  "mId exampleDisplay = Some 7
   \<and> fst (getDeviceCompositionChanges
            (exampleCollaborators\<lparr>getDeviceCompositionChanges := \<lambda>i needsClient. (- 22, None)\<rparr>) 7
            (anyLayersRequireClientComposition exampleLayerOps exampleDisplay)) \<noteq> NO_ERROR
   \<and> (\<exists>d'. chooseCompositionStrategy exampleLayerOps
              (exampleCollaborators\<lparr>getDeviceCompositionChanges := \<lambda>i needsClient. (- 22, None)\<rparr>)
              exampleDisplay = Inr d'
          \<and> usesClientComposition (mState d') \<and> \<not> usesDeviceComposition (mState d')
          \<and> mOutputLayersOrderedByZ d' = mOutputLayersOrderedByZ exampleDisplay
          \<and> \<not> flipClientTarget (mState d'))"
proof -
  let ?env = "exampleCollaborators\<lparr>getDeviceCompositionChanges := \<lambda>i needsClient. (- 22, None)\<rparr>"
  have bound: "mId exampleDisplay = Some 7" and flip: "\<not> flipClientTarget (mState exampleDisplay)"
    by (simp_all add: exampleDisplay_def)
  have fails: "fst (getDeviceCompositionChanges ?env 7
            (anyLayersRequireClientComposition exampleLayerOps exampleDisplay)) \<noteq> NO_ERROR"
    by (simp add: NO_ERROR_def)
  from bound fails have "mId exampleDisplay = None
     \<or> (\<exists>i. mId exampleDisplay = Some i
           \<and> fst (getDeviceCompositionChanges ?env i
                    (anyLayersRequireClientComposition exampleLayerOps exampleDisplay)) \<noteq> NO_ERROR)"
    by blast
  from chooseCompositionStrategy_defaults [OF this] bound fails flip
  show ?thesis by auto
qed

subsection \<open>The display id\<close>

text \<open>
  C10, as amended. \<open>setColorTransform\<close> dereferences the stored id without a test: with an
  id it forwards the matrix to the hardware composer, and it hits the dereference of an
  empty optional exactly when the id is absent. \<open>disconnect\<close> leaves the id absent, so after
  it \<open>setColorTransform\<close> is undefined. \<open>presentAndGetFrameFences\<close> tests the id first and
  is always defined. \<open>setColorMode\<close> does not test the id: it returns early for an unchanged
  color mode and for a virtual display, and otherwise dereferences the id as
  \<open>setColorTransform\<close> does.
\<close>

theorem setColorTransform_dereferences_id:
  "(mId d = Some i \<longrightarrow>
      setColorTransform env transform d
        = Inr (d\<lparr>mState := Output_setColorTransform env transform (mState d),
                 hwcCalls := hwcCalls d @ [SetColorTransform i transform]\<rparr>))
   \<and> (setColorTransform env transform d = Inl EmptyOptionalDereferenced \<longleftrightarrow> mId d = None)
   \<and> (\<exists>d'. disconnect d = Inr d' \<and> mId d' = None
          \<and> setColorTransform env transform d' = Inl EmptyOptionalDereferenced)
   \<and> (\<exists>r. presentAndGetFrameFences ops env d = Inr r)
   \<and> (mId d = None \<longrightarrow>
        presentAndGetFrameFences ops env d = Inr (Output_presentAndGetFrameFences env d, d))
   \<and> (setColorMode env mode ds intent agnostic d = Inl EmptyOptionalDereferenced \<longleftrightarrow>
        mId d = None \<and> \<not> mIsVirtual d
        \<and> \<not> (mode = colorMode (mState d) \<and> ds = dataspace (mState d)
              \<and> intent = renderIntent (mState d)
              \<and> getTargetDataspace env mode ds agnostic = targetDataspace (mState d)))"
proof -
  have transform: "mId d = Some i \<longrightarrow>
      setColorTransform env transform d
        = Inr (d\<lparr>mState := Output_setColorTransform env transform (mState d),
                 hwcCalls := hwcCalls d @ [SetColorTransform i transform]\<rparr>)"
    by (simp add: setColorTransform_def Let_def dereference_def)
  have absent: "setColorTransform env transform d = Inl EmptyOptionalDereferenced \<longleftrightarrow> mId d = None"
    by (cases "mId d") (simp_all add: setColorTransform_def Let_def dereference_def)
  have disconnected: "\<exists>d'. disconnect d = Inr d' \<and> mId d' = None
          \<and> setColorTransform env transform d' = Inl EmptyOptionalDereferenced"
    by (cases "mId d") (simp_all add: disconnect_def setColorTransform_def Let_def dereference_def)
  have present: "\<exists>r. presentAndGetFrameFences ops env d = Inr r"
    by (cases "mId d")
      (simp_all add: presentAndGetFrameFences_def Let_def dereference_def split_beta)
  have present_absent: "mId d = None \<longrightarrow>
        presentAndGetFrameFences ops env d = Inr (Output_presentAndGetFrameFences env d, d)"
    by (simp add: presentAndGetFrameFences_def Let_def)
  have mode: "setColorMode env mode ds intent agnostic d = Inl EmptyOptionalDereferenced \<longleftrightarrow>
        mId d = None \<and> \<not> mIsVirtual d
        \<and> \<not> (mode = colorMode (mState d) \<and> ds = dataspace (mState d)
              \<and> intent = renderIntent (mState d)
              \<and> getTargetDataspace env mode ds agnostic = targetDataspace (mState d))"
    by (cases "mId d") (auto simp: setColorMode_def Let_def dereference_def)
  from transform absent disconnected present present_absent mode show ?thesis
    by (intro conjI)
qed

theorem setColorTransform_dereferences_id_witness:
  "mId exampleDisplay = Some 7
   \<and> setColorTransform exampleCollaborators 3 exampleDisplay
       = Inr (exampleDisplay\<lparr>hwcCalls := [SetColorTransform 7 3]\<rparr>)
   \<and> mId (exampleDisplay\<lparr>mId := None\<rparr>) = None
   \<and> setColorTransform exampleCollaborators 3 (exampleDisplay\<lparr>mId := None\<rparr>)
       = Inl EmptyOptionalDereferenced
   \<and> presentAndGetFrameFences exampleLayerOps exampleCollaborators (exampleDisplay\<lparr>mId := None\<rparr>)
       = Inr (\<lparr>presentFence = NO_FENCE, clientTargetAcquireFence = NO_FENCE, layerFences = Map.empty\<rparr>,
              exampleDisplay\<lparr>mId := None\<rparr>)"
proof -
  have bound: "mId exampleDisplay = Some 7" and none: "mId (exampleDisplay\<lparr>mId := None\<rparr>) = None"
    by (simp_all add: exampleDisplay_def)
  from setColorTransform_dereferences_id
         [of exampleDisplay 7 exampleCollaborators 3 exampleLayerOps 0 0 0 0] bound
  have a: "setColorTransform exampleCollaborators 3 exampleDisplay
       = Inr (exampleDisplay\<lparr>mState := Output_setColorTransform exampleCollaborators 3 (mState exampleDisplay),
                 hwcCalls := hwcCalls exampleDisplay @ [SetColorTransform 7 3]\<rparr>)"
    by blast
  from setColorTransform_dereferences_id
         [of "exampleDisplay\<lparr>mId := None\<rparr>" 7 exampleCollaborators 3 exampleLayerOps 0 0 0 0] none
  have b: "setColorTransform exampleCollaborators 3 (exampleDisplay\<lparr>mId := None\<rparr>)
       = Inl EmptyOptionalDereferenced"
    and c: "presentAndGetFrameFences exampleLayerOps exampleCollaborators (exampleDisplay\<lparr>mId := None\<rparr>)
       = Inr (Output_presentAndGetFrameFences exampleCollaborators (exampleDisplay\<lparr>mId := None\<rparr>),
              exampleDisplay\<lparr>mId := None\<rparr>)"
    by blast+
  show ?thesis
    unfolding a b c
    by (simp add: exampleDisplay_def exampleCollaborators_def Output_presentAndGetFrameFences_def)
qed

text \<open>
  C10 as stated counts \<open>setColorMode\<close> among the functions that test the id. On a display
  that is not virtual and has been disconnected, a new color mode reaches the dereference of
  the empty optional.
\<close>

theorem setColorMode_dereferences_absent_id:
  "disconnect exampleDisplay = Inr (exampleDisplay\<lparr>mId := None, hwcCalls := [DisconnectDisplay 7]\<rparr>)
   \<and> \<not> mIsVirtual (exampleDisplay\<lparr>mId := None, hwcCalls := [DisconnectDisplay 7]\<rparr>)
   \<and> setColorMode exampleCollaborators 9 0 0 0
        (exampleDisplay\<lparr>mId := None, hwcCalls := [DisconnectDisplay 7]\<rparr>)
       = Inl EmptyOptionalDereferenced"
  by (simp add: disconnect_def setColorMode_def dereference_def exampleDisplay_def
        exampleCollaborators_def Let_def)

end
